theory Spec2Isabelle
  imports Complex_Main "HOL-Library.AList"
begin

section \<open>Numbers, rounding and the random source\<close>

text \<open>
  Timings are Python floats, that is, binary doubles. A stored timing is modelled as
  the real number that the double denotes: \<open>dbl x\<close> is the double nearest to the real
  \<open>x\<close>. The arithmetic that leads to a value before it is rounded to two decimals
  (products, differences, means, the logarithm) is taken as exact. Row counts are
  Python integers.
\<close>

text \<open>
  Rounding to the nearest integer, a tie going to the even one, as Python and numpy
  round.
\<close>

definition py_round :: "real \<Rightarrow> int" where
  "py_round y =
     (let f = \<lfloor>y\<rfloor>; d = y - of_int f
      in if d < 1 / 2 then f else if 1 / 2 < d then f + 1
         else if even f then f else f + 1)"

text \<open>
  The double nearest to a real: 53 significant bits, a tie going to the even
  significand. The exponent is not bounded, so overflow and subnormal numbers are not
  modelled; timings in milliseconds are far from both.
\<close>

definition dbl :: "real \<Rightarrow> real" where
  "dbl x =
     (if x = 0 then 0
      else (let e = \<lfloor>log 2 \<bar>x\<bar>\<rfloor>
            in of_int (py_round (x * 2 powr (52 - of_int e))) * 2 powr (of_int e - 52)))"

text \<open>
  \<^verbatim>\<open>round(x, 2)\<close>: the multiple of one hundredth nearest to \<open>x\<close>, a tie going to the
  even hundredth (\<open>dec2\<close>), stored as the double nearest to it.
\<close>

definition dec2 :: "real \<Rightarrow> real" where
  "dec2 x = of_int (py_round (x * 100)) / 100"

definition py_round2 :: "real \<Rightarrow> real" where
  "py_round2 x = dbl (dec2 x)"

text \<open>\<^verbatim>\<open>int(x)\<close> on a float truncates towards zero.\<close>

definition py_int :: "real \<Rightarrow> int" where
  "py_int x = (if 0 \<le> x then \<lfloor>x\<rfloor> else \<lceil>x\<rceil>)"

text \<open>\<^verbatim>\<open>str(i)\<close> for a natural number, as used by the f-string \<^verbatim>\<open>f'Q{i}'\<close>.\<close>

fun str_nat :: "nat \<Rightarrow> string" where
  "str_nat n =
     (if n < 10 then [''0123456789'' ! n]
      else str_nat (n div 10) @ [''0123456789'' ! (n mod 10)])"

text \<open>\<^verbatim>\<open>s.startswith(p)\<close>\<close>

definition startswith :: "string \<Rightarrow> string \<Rightarrow> bool" where
  "startswith s p = (take (length p) s = p)"

text \<open>
  The process-wide numpy generator. numpy is not part of the repository, so the
  Mersenne Twister is a parameter \<open>mt\<close>: \<open>mt k i\<close> is the \<open>i\<close>-th value that
  \<^verbatim>\<open>random_sample()\<close> returns after \<^verbatim>\<open>seed(k)\<close>. The state of the generator is the
  seed it was last given and the number of values drawn since.
  \<^verbatim>\<open>np.random.uniform(lo, hi)\<close> is \<^verbatim>\<open>lo + (hi - lo) * random_sample()\<close>.
\<close>

type_synonym sampler = "nat \<Rightarrow> nat \<Rightarrow> real"

record rng_state =
  rng_seed :: nat
  rng_pos :: nat

definition np_random_seed :: "nat \<Rightarrow> rng_state \<Rightarrow> rng_state" where
  "np_random_seed k st = \<lparr>rng_seed = k, rng_pos = 0\<rparr>"

definition np_random_uniform :: "sampler \<Rightarrow> real \<Rightarrow> real \<Rightarrow> rng_state \<Rightarrow> real \<times> rng_state" where
  "np_random_uniform mt lo hi st =
     (lo + (hi - lo) * mt (rng_seed st) (rng_pos st), st\<lparr>rng_pos := Suc (rng_pos st)\<rparr>)"

text \<open>\<^verbatim>\<open>random_sample()\<close> returns values of the half-open unit interval.\<close>

definition unit_samples :: "sampler \<Rightarrow> bool" where
  "unit_samples mt = (\<forall>k i. 0 \<le> mt k i \<and> mt k i < 1)"

section \<open>The record schema\<close>

record perf_record =
  query_name :: string
  database :: string
  execution_time_ms :: real
  query_time_ms :: real
  return_time_ms :: real
  rows_returned :: int
  query_type :: string

section \<open>The synthetic generator (scripts/data_generator.py)\<close>

definition simple_queries :: "string list" where
  "simple_queries = map (\<lambda>i. ''Q'' @ str_nat i) [1..<9]"

definition complex_queries :: "string list" where
  "complex_queries = map (\<lambda>i. ''Q'' @ str_nat i) [1..<6]"

definition crud_operations :: "string list" where
  "crud_operations = [''I1'', ''D1'', ''U1'']"

definition databases :: "string list" where
  "databases = [''PostgreSQL'', ''PostgreSQL_indexed'', ''DuckDB'', ''DuckDB_indexed'', ''InfluxDB'']"

definition simple_base_time :: "sampler \<Rightarrow> string \<Rightarrow> rng_state \<Rightarrow> real \<times> rng_state" where
  "simple_base_time mt db st =
     (if db = ''PostgreSQL'' then np_random_uniform mt 100 500 st
      else if db = ''PostgreSQL_indexed'' then np_random_uniform mt 50 200 st
      else if db = ''DuckDB'' then np_random_uniform mt 40 150 st
      else if db = ''DuckDB_indexed'' then np_random_uniform mt 35 140 st
      else np_random_uniform mt 150 600 st)"

definition complex_base_time :: "sampler \<Rightarrow> string \<Rightarrow> rng_state \<Rightarrow> real \<times> rng_state" where
  "complex_base_time mt db st =
     (if db = ''PostgreSQL'' then np_random_uniform mt 500 2000 st
      else if db = ''PostgreSQL_indexed'' then np_random_uniform mt 300 1500 st
      else if db = ''DuckDB'' then np_random_uniform mt 200 1000 st
      else if db = ''DuckDB_indexed'' then np_random_uniform mt 180 950 st
      else np_random_uniform mt 800 3000 st)"

definition crud_base_time :: "sampler \<Rightarrow> string \<Rightarrow> rng_state \<Rightarrow> real \<times> rng_state" where
  "crud_base_time mt db st =
     (let (base_time, st1) =
            (if startswith db ''PostgreSQL'' then np_random_uniform mt 10 50 st
             else np_random_uniform mt 8 40 st)
      in if db = ''InfluxDB'' then np_random_uniform mt 15 60 st1 else (base_time, st1))"

text \<open>
  The three statements that every batch runs after drawing the base time,
  \<^verbatim>\<open>total_time = base_time * np.random.uniform(0.9, 1.1)\<close>,
  \<^verbatim>\<open>query_time = total_time * np.random.uniform(lo, hi)\<close> and
  \<^verbatim>\<open>return_time = total_time - query_time\<close>, where the bounds \<open>lo\<close> and \<open>hi\<close> are
  0.6 and 0.8 in the simple batch, 0.7 and 0.85 in the complex batch, 0.85 and 0.95 in
  the crud batch.
\<close>

definition jitter_split ::
  "sampler \<Rightarrow> real \<Rightarrow> real \<Rightarrow> real \<Rightarrow> rng_state \<Rightarrow> (real \<times> real \<times> real) \<times> rng_state" where
  "jitter_split mt lo hi base_time st =
     (let (jitter, st1) = np_random_uniform mt (9 / 10) (11 / 10) st;
          total_time = base_time * jitter;
          (ratio, st2) = np_random_uniform mt lo hi st1;
          query_time = total_time * ratio;
          return_time = total_time - query_time
      in ((total_time, query_time, return_time), st2))"

text \<open>
  The body of the inner loop of each batch: the state is the list \<^verbatim>\<open>data\<close> built so far
  and the generator state. The draws are made in the order of the source's statements.
\<close>

definition simple_body ::
  "sampler \<Rightarrow> string \<Rightarrow> string \<Rightarrow> perf_record list \<times> rng_state \<Rightarrow> perf_record list \<times> rng_state" where
  "simple_body mt query db s =
     (let (data, st) = s;
          (base_time, st1) = simple_base_time mt db st;
          ((total_time, query_time, return_time), st3) = jitter_split mt (6 / 10) (8 / 10) base_time st1;
          (u, st4) = np_random_uniform mt 100 10000 st3;
          rows = py_int u
      in (data @ [\<lparr>query_name = query, database = db,
                     execution_time_ms = py_round2 total_time,
                     query_time_ms = py_round2 query_time,
                     return_time_ms = py_round2 return_time,
                     rows_returned = rows, query_type = ''simple''\<rparr>], st4))"

definition complex_body ::
  "sampler \<Rightarrow> string \<Rightarrow> string \<Rightarrow> perf_record list \<times> rng_state \<Rightarrow> perf_record list \<times> rng_state" where
  "complex_body mt query db s =
     (let (data, st) = s;
          (base_time, st1) = complex_base_time mt db st;
          ((total_time, query_time, return_time), st3) = jitter_split mt (7 / 10) (85 / 100) base_time st1;
          (u, st4) = np_random_uniform mt 1000 50000 st3;
          rows = py_int u
      in (data @ [\<lparr>query_name = query, database = db,
                     execution_time_ms = py_round2 total_time,
                     query_time_ms = py_round2 query_time,
                     return_time_ms = py_round2 return_time,
                     rows_returned = rows, query_type = ''complex''\<rparr>], st4))"

definition crud_body ::
  "sampler \<Rightarrow> string \<Rightarrow> string \<Rightarrow> perf_record list \<times> rng_state \<Rightarrow> perf_record list \<times> rng_state" where
  "crud_body mt operation db s =
     (if db = ''InfluxDB'' \<and> operation \<in> set [''D1'', ''U1''] then s
      else
        (let (data, st) = s;
             (base_time, st1) = crud_base_time mt db st;
             ((total_time, query_time, return_time), st3) = jitter_split mt (85 / 100) (95 / 100) base_time st1;
             (rows, st4) =
               (if operation \<noteq> ''I1'' then (1, st3)
                else (let (u, st') = np_random_uniform mt 1 100 st3 in (py_int u, st')))
         in (data @ [\<lparr>query_name = operation, database = db,
                        execution_time_ms = py_round2 total_time,
                        query_time_ms = py_round2 query_time,
                        return_time_ms = py_round2 return_time,
                        rows_returned = rows, query_type = ''crud''\<rparr>], st4)))"

text \<open>
  \<^verbatim>\<open>generate_sample_data\<close>: seeds the generator with 42, runs the three batches and writes
  the frame. \<open>to_csv\<close> is pandas' serialiser (a parameter); the result is the frame, the
  content written to \<^verbatim>\<open>data/sample_performance.csv\<close> and the generator state left behind.
  The argument \<open>g\<close> is the state of the process-wide generator before the call.
\<close>

definition generate_sample_data ::
  "sampler \<Rightarrow> (perf_record list \<Rightarrow> 'csv) \<Rightarrow> rng_state \<Rightarrow> perf_record list \<times> 'csv \<times> rng_state" where
  "generate_sample_data mt to_csv g =
     (let st0 = np_random_seed 42 g;
          s1 = fold (\<lambda>query. fold (\<lambda>db. simple_body mt query db) databases) simple_queries ([], st0);
          s2 = fold (\<lambda>query. fold (\<lambda>db. complex_body mt query db) databases) complex_queries s1;
          (data, st) = fold (\<lambda>operation. fold (\<lambda>db. crud_body mt operation db) databases) crud_operations s2
      in (data, to_csv data, st))"

section \<open>Loading the source tables (scripts/data_loader.py, load_all_tables)\<close>

text \<open>
  A loaded table is a pandas frame; the program only ever takes its length, so a frame
  is represented by its number of rows. \<^verbatim>\<open>self.tables\<close> is a dict, modelled as an
  association list in insertion order.

  The five files of \<^verbatim>\<open>file_mapping\<close> have Chinese names; they are named here by their
  meaning, in the order of the dict literal.
\<close>

type_synonym dataframe = nat

type_synonym tables = "(string \<times> dataframe) list"

datatype data_file = OrdersCsv | CustomersCsv | SellersCsv | PaymentsCsv | OrderItemsCsv

definition file_mapping :: "(data_file \<times> string) list" where
  "file_mapping =
     [(OrdersCsv, ''orders''), (CustomersCsv, ''customers''), (SellersCsv, ''sellers''),
      (PaymentsCsv, ''payments''), (OrderItemsCsv, ''order_items'')]"

definition encodings :: "string list" where
  "encodings = [''gbk'', ''utf-8'', ''gb18030'', ''latin1'']"

text \<open>
  What \<^verbatim>\<open>pd.read_csv\<close> can raise. The first four are subclasses of \<^verbatim>\<open>Exception\<close>
  (a decoding failure, the two parse failures of pandas, an I/O failure);
  \<^verbatim>\<open>KeyboardInterrupt\<close> is not, and \<^verbatim>\<open>except Exception\<close> does not catch it.
\<close>

datatype exn = UnicodeDecodeError | ParserError | EmptyDataError | OSError | KeyboardInterrupt

definition is_Exception :: "exn \<Rightarrow> bool" where
  "is_Exception e = (e \<noteq> KeyboardInterrupt)"

text \<open>
  What the loader does to the outside: each call of \<^verbatim>\<open>pd.read_csv\<close> and each line it
  prints about a file. Printing is taken not to fail.
\<close>

datatype event =
    ReadCsv data_file string
  | Loaded data_file nat string
  | LoadFailed data_file exn
  | FileMissing data_file

text \<open>
  The loop over the candidate encodings, for one file. \<open>rd\<close> is \<^verbatim>\<open>pd.read_csv\<close> on that
  file. The result is \<open>Inr (Some df)\<close> after \<^verbatim>\<open>break\<close>, \<open>Inr None\<close> when the list is
  exhausted, and \<open>Inl e\<close> when an exception other than \<^verbatim>\<open>UnicodeDecodeError\<close> leaves
  the loop.
\<close>

fun try_encodings ::
  "data_file \<Rightarrow> (string \<Rightarrow> exn + dataframe) \<Rightarrow> string list \<Rightarrow> event list
     \<Rightarrow> event list \<times> (exn + dataframe option)" where
  "try_encodings f rd [] evs = (evs, Inr None)"
| "try_encodings f rd (encoding # rest) evs =
     (case rd encoding of
        Inr df \<Rightarrow> (evs @ [ReadCsv f encoding], Inr (Some df))
      | Inl e \<Rightarrow>
          if e = UnicodeDecodeError then try_encodings f rd rest (evs @ [ReadCsv f encoding])
          else (evs @ [ReadCsv f encoding], Inl e))"

text \<open>
  The body of the loop over \<^verbatim>\<open>file_mapping.items()\<close>. \<open>ex\<close> is \<^verbatim>\<open>Path.exists\<close> and
  \<open>read_csv\<close> is \<^verbatim>\<open>pd.read_csv\<close>, both parameters. The result is \<open>Inl e\<close> when the
  exception \<open>e\<close> leaves the function.
\<close>

definition load_table ::
  "(data_file \<Rightarrow> bool) \<Rightarrow> (data_file \<Rightarrow> string \<Rightarrow> exn + dataframe) \<Rightarrow> data_file \<times> string
     \<Rightarrow> tables \<times> event list \<Rightarrow> exn + (tables \<times> event list)" where
  "load_table ex read_csv item s =
     (let (chinese_name, english_name) = item; (tbls, evs) = s
      in if ex chinese_name then
           (case try_encodings chinese_name (read_csv chinese_name) encodings evs of
              (evs1, Inr (Some df)) \<Rightarrow>
                Inr (AList.update english_name df tbls, evs1 @ [Loaded chinese_name df english_name])
            | (evs1, Inr None) \<Rightarrow> Inr (tbls, evs1)
            | (evs1, Inl e) \<Rightarrow>
                if is_Exception e then Inr (tbls, evs1 @ [LoadFailed chinese_name e]) else Inl e)
         else Inr (tbls, evs @ [FileMissing chinese_name]))"

fun load_loop ::
  "(data_file \<Rightarrow> bool) \<Rightarrow> (data_file \<Rightarrow> string \<Rightarrow> exn + dataframe) \<Rightarrow> (data_file \<times> string) list
     \<Rightarrow> tables \<times> event list \<Rightarrow> exn + (tables \<times> event list)" where
  "load_loop ex read_csv [] s = Inr s"
| "load_loop ex read_csv (item # items) s =
     (case load_table ex read_csv item s of
        Inl e \<Rightarrow> Inl e
      | Inr s' \<Rightarrow> load_loop ex read_csv items s')"

definition load_all_tables ::
  "(data_file \<Rightarrow> bool) \<Rightarrow> (data_file \<Rightarrow> string \<Rightarrow> exn + dataframe) \<Rightarrow> tables
     \<Rightarrow> exn + (tables \<times> event list)" where
  "load_all_tables ex read_csv tbls = load_loop ex read_csv file_mapping (tbls, [])"

section \<open>The real-data estimator (scripts/data_loader.py, generate_performance_results)\<close>

text \<open>
  A scenario of \<^verbatim>\<open>test_scenarios\<close>; its description is only printed and is left out.
  \<^verbatim>\<open>base_rows\<close> is an integer in some scenarios and a float in others.
\<close>

record scenario =
  sc_name :: string
  sc_type :: string
  base_rows :: real

definition test_scenarios :: "nat \<Rightarrow> nat \<Rightarrow> scenario list" where
  "test_scenarios order_count order_items_count =
     [\<lparr>sc_name = ''Q1'', sc_type = ''simple'', base_rows = real order_count * (3 / 10)\<rparr>,
      \<lparr>sc_name = ''Q2'', sc_type = ''simple'', base_rows = 27\<rparr>,
      \<lparr>sc_name = ''Q3'', sc_type = ''simple'', base_rows = real order_count * (6 / 10)\<rparr>,
      \<lparr>sc_name = ''Q4'', sc_type = ''simple'', base_rows = 3000\<rparr>,
      \<lparr>sc_name = ''Q5'', sc_type = ''simple'', base_rows = real order_count * (1 / 10)\<rparr>,
      \<lparr>sc_name = ''Q6'', sc_type = ''simple'', base_rows = 24\<rparr>,
      \<lparr>sc_name = ''Q7'', sc_type = ''simple'', base_rows = real order_count * (5 / 100)\<rparr>,
      \<lparr>sc_name = ''Q8'', sc_type = ''simple'', base_rows = 4000\<rparr>,
      \<lparr>sc_name = ''Q1'', sc_type = ''complex'', base_rows = real order_items_count\<rparr>,
      \<lparr>sc_name = ''Q2'', sc_type = ''complex'', base_rows = 3000\<rparr>,
      \<lparr>sc_name = ''Q3'', sc_type = ''complex'', base_rows = real order_count * (8 / 10)\<rparr>,
      \<lparr>sc_name = ''Q4'', sc_type = ''complex'', base_rows = 5000\<rparr>,
      \<lparr>sc_name = ''Q5'', sc_type = ''complex'', base_rows = real order_count\<rparr>,
      \<lparr>sc_name = ''I1'', sc_type = ''crud'', base_rows = 1\<rparr>,
      \<lparr>sc_name = ''D1'', sc_type = ''crud'', base_rows = 1\<rparr>,
      \<lparr>sc_name = ''U1'', sc_type = ''crud'', base_rows = 1\<rparr>]"

text \<open>
  The base time of one (scenario, database) pair; \<open>None\<close> is the \<^verbatim>\<open>continue\<close> of the
  crud branch. \<^verbatim>\<open>np.log10\<close> is the logarithm to base ten.
\<close>

definition estimator_base_time ::
  "sampler \<Rightarrow> scenario \<Rightarrow> string \<Rightarrow> rng_state \<Rightarrow> (real \<times> rng_state) option" where
  "estimator_base_time mt sc db st =
     (if sc_type sc = ''simple'' then
        Some (if db = ''PostgreSQL'' then log 10 (base_rows sc + 1) * 80
              else if db = ''PostgreSQL_indexed'' then log 10 (base_rows sc + 1) * 40
              else if db = ''DuckDB'' then log 10 (base_rows sc + 1) * 30
              else if db = ''DuckDB_indexed'' then log 10 (base_rows sc + 1) * 28
              else log 10 (base_rows sc + 1) * 100, st)
      else if sc_type sc = ''complex'' then
        Some (if db = ''PostgreSQL'' then log 10 (base_rows sc + 1) * 200
              else if db = ''PostgreSQL_indexed'' then log 10 (base_rows sc + 1) * 150
              else if db = ''DuckDB'' then log 10 (base_rows sc + 1) * 100
              else if db = ''DuckDB_indexed'' then log 10 (base_rows sc + 1) * 95
              else log 10 (base_rows sc + 1) * 300, st)
      else if db = ''InfluxDB'' \<and> sc_name sc \<in> set [''D1'', ''U1''] then None
      else if startswith db ''PostgreSQL'' then Some (np_random_uniform mt 5 25 st)
      else if startswith db ''DuckDB'' then Some (np_random_uniform mt 4 20 st)
      else Some (np_random_uniform mt 8 30 st))"

text \<open>
  The statements after the base time (the jitter, the query ratio and the split), up to
  the three timings before rounding.
\<close>

definition estimator_jitter_split ::
  "sampler \<Rightarrow> string \<Rightarrow> string \<Rightarrow> real \<Rightarrow> rng_state \<Rightarrow> (real \<times> real \<times> real) \<times> rng_state" where
  "estimator_jitter_split mt ty db base_time st =
     (let (jitter, st1) = np_random_uniform mt (85 / 100) (115 / 100) st;
          total_time = base_time * jitter;
          query_ratio = (if ty = ''crud'' then 9 / 10
                         else if db = ''InfluxDB'' then 55 / 100 else 75 / 100);
          query_time = total_time * query_ratio;
          return_time = total_time - query_time
      in ((total_time, query_time, return_time), st1))"

definition estimator_body ::
  "sampler \<Rightarrow> scenario \<Rightarrow> string \<Rightarrow> perf_record list \<times> rng_state \<Rightarrow> perf_record list \<times> rng_state" where
  "estimator_body mt sc db s =
     (let (results, st) = s
      in case estimator_base_time mt sc db st of
           None \<Rightarrow> s
         | Some (base_time, st1) \<Rightarrow>
             (let ((total_time, query_time, return_time), st2) =
                    estimator_jitter_split mt (sc_type sc) db base_time st1
              in (results @ [\<lparr>query_name = sc_name sc, database = db,
                                execution_time_ms = py_round2 total_time,
                                query_time_ms = py_round2 query_time,
                                return_time_ms = py_round2 return_time,
                                rows_returned = py_int (base_rows sc),
                                query_type = sc_type sc\<rparr>], st2)))"

text \<open>\<^verbatim>\<open>len(self.tables.get(name, []))\<close>\<close>

definition table_len :: "tables \<Rightarrow> string \<Rightarrow> nat" where
  "table_len tbls name = (case map_of tbls name of None \<Rightarrow> 0 | Some df \<Rightarrow> df)"

text \<open>
  The loop over the scenarios and the databases, from the two row counts and the
  generator state before \<^verbatim>\<open>np.random.seed(42)\<close>.
\<close>

definition estimate_results :: "sampler \<Rightarrow> nat \<Rightarrow> nat \<Rightarrow> rng_state \<Rightarrow> perf_record list \<times> rng_state" where
  "estimate_results mt order_count order_items_count g =
     fold (\<lambda>sc. fold (\<lambda>db. estimator_body mt sc db) databases)
       (test_scenarios order_count order_items_count) ([], np_random_seed 42 g)"

text \<open>
  \<^verbatim>\<open>generate_performance_results\<close>: loads the tables when none is loaded, reads the two
  row counts, builds the results and writes them. The result is the frame, the content
  written, \<^verbatim>\<open>self.tables\<close> and the generator state, or the exception that left the
  function.
\<close>

definition generate_performance_results ::
  "sampler \<Rightarrow> (perf_record list \<Rightarrow> 'csv) \<Rightarrow> (data_file \<Rightarrow> bool)
     \<Rightarrow> (data_file \<Rightarrow> string \<Rightarrow> exn + dataframe) \<Rightarrow> tables \<Rightarrow> rng_state
     \<Rightarrow> exn + (perf_record list \<times> 'csv \<times> tables \<times> rng_state)" where
  "generate_performance_results mt to_csv ex read_csv tbls g =
     (case (if tbls = [] then map_sum id fst (load_all_tables ex read_csv tbls) else Inr tbls) of
        Inl e \<Rightarrow> Inl e
      | Inr tbls1 \<Rightarrow>
          (let order_count = table_len tbls1 ''orders'';
               order_items_count = table_len tbls1 ''order_items'';
               (results, st) = estimate_results mt order_count order_items_count g
           in Inr (results, to_csv results, tbls1, st)))"

section \<open>The benchmark runner (scripts/benchmark.py)\<close>

text \<open>
  One timed execution: either the three readings of \<^verbatim>\<open>time.time()\<close> (in seconds) and the
  number of rows fetched, or an exception raised by the database driver.
\<close>

datatype run = Timed real real real nat | Raised

text \<open>
  The loop \<^verbatim>\<open>for i in range(3)\<close>; \<open>None\<close> is the \<^verbatim>\<open>return\<close> of the exception handler.
  The state is \<^verbatim>\<open>times\<close> (here \<open>total_times\<close>), \<^verbatim>\<open>return_times\<close> and \<^verbatim>\<open>rows_count\<close>.
\<close>

fun measure_runs ::
  "(nat \<Rightarrow> run) \<Rightarrow> nat list \<Rightarrow> real list \<times> real list \<times> nat \<Rightarrow> (real list \<times> real list \<times> nat) option" where
  "measure_runs runs [] acc = Some acc"
| "measure_runs runs (i # rest) (total_times, return_times, rows_count) =
     (case runs i of
        Raised \<Rightarrow> None
      | Timed start_time query_end_time end_time n \<Rightarrow>
          (let total_time = (end_time - start_time) * 1000;
               return_time = (end_time - query_end_time) * 1000
           in measure_runs runs rest (total_times @ [total_time], return_times @ [return_time], n)))"

definition benchmark_sql_query ::
  "(nat \<Rightarrow> run) \<Rightarrow> string \<Rightarrow> string \<Rightarrow> string \<Rightarrow> perf_record list \<Rightarrow> perf_record list" where
  "benchmark_sql_query runs db_name qname qtype results =
     (case measure_runs runs [0..<3] ([], [], 0) of
        None \<Rightarrow> results
      | Some (total_times, return_times, rows_count) \<Rightarrow>
          (let avg_time = sum_list total_times / real (length total_times);
               avg_return_time = sum_list return_times / real (length return_times);
               avg_query_time = avg_time - avg_return_time
           in results @ [\<lparr>query_name = qname, database = db_name,
                            execution_time_ms = py_round2 avg_time,
                            query_time_ms = py_round2 avg_query_time,
                            return_time_ms = py_round2 avg_return_time,
                            rows_returned = int rows_count, query_type = qtype\<rparr>]))"

definition benchmark_influx_query ::
  "(nat \<Rightarrow> run) \<Rightarrow> string option \<Rightarrow> string \<Rightarrow> string \<Rightarrow> perf_record list \<Rightarrow> perf_record list" where
  "benchmark_influx_query runs query qname qtype results =
     (if query = None then results
      else benchmark_sql_query runs ''InfluxDB'' qname qtype results)"

section \<open>The consumers' derived field\<close>

text \<open>
  A pandas float column holds numbers, NaN and the two infinities; the quotient of two
  floats with a zero divisor is NaN for \<open>0 / 0\<close> and an infinity otherwise.
\<close>

datatype pd_float = Num real | NaN | PosInf | NegInf

definition pd_div :: "real \<Rightarrow> real \<Rightarrow> pd_float" where
  "pd_div x y =
     (if y = 0 then (if x = 0 then NaN else if 0 < x then PosInf else NegInf)
      else Num (dbl (x / y)))"

fun pd_times100 :: "pd_float \<Rightarrow> pd_float" where
  "pd_times100 (Num x) = Num (dbl (x * 100))"
| "pd_times100 v = v"

fun pd_round2 :: "pd_float \<Rightarrow> pd_float" where
  "pd_round2 (Num x) = Num (py_round2 x)"
| "pd_round2 v = v"

text \<open>
  \<^verbatim>\<open>return_time_ms / execution_time_ms * 100\<close> as the static charts and the summary
  report compute it (scripts/visualize.py), and rounded to two decimals as the
  dashboard's \<^verbatim>\<open>load_data\<close> computes it (app.py).
\<close>

definition return_ratio :: "perf_record \<Rightarrow> pd_float" where
  "return_ratio r = pd_times100 (pd_div (return_time_ms r) (execution_time_ms r))"

definition load_data_return_ratio :: "perf_record \<Rightarrow> pd_float" where
  "load_data_return_ratio r = pd_round2 (return_ratio r)"

definition in_percent_range :: "pd_float \<Rightarrow> bool" where
  "in_percent_range v = (case v of Num x \<Rightarrow> 0 \<le> x \<and> x \<le> 100 | _ \<Rightarrow> False)"

section \<open>The test on the three timings\<close>

text \<open>
  \<^verbatim>\<open>abs((query_time_ms + return_time_ms) - execution_time_ms)\<close> as Python evaluates it
  on the stored doubles: the sum and the difference are each rounded to a double. The
  representation slack of a record is the sum of the magnitudes of its three timings
  divided by \<open>2 ^ 50\<close>.
\<close>

definition timing_gap :: "perf_record \<Rightarrow> real" where
  "timing_gap r = \<bar>dbl (dbl (query_time_ms r + return_time_ms r) - execution_time_ms r)\<bar>"

definition representation_slack :: "perf_record \<Rightarrow> real" where
  "representation_slack r =
     (\<bar>query_time_ms r\<bar> + \<bar>return_time_ms r\<bar> + \<bar>execution_time_ms r\<bar>) / 2 ^ 50"

text \<open>
  The three timings of a record add up: the query time and the return time sum to the
  execution time up to one hundredth and the representation slack, both as an exact
  difference of the stored doubles and as Python evaluates the difference.
\<close>

definition timings_add_up :: "perf_record \<Rightarrow> bool" where
  "timings_add_up r =
     (\<bar>query_time_ms r + return_time_ms r - execution_time_ms r\<bar> \<le> 1 / 100 + representation_slack r \<and>
      timing_gap r \<le> 1 / 100 + representation_slack r)"

section \<open>Auxiliary notions for the proofs\<close>

text \<open>The key of a record: its batch, its query and its database.\<close>

definition rkey :: "perf_record \<Rightarrow> string \<times> string \<times> string" where
  "rkey r = (query_type r, query_name r, database r)"

text \<open>
  A record whose three timings are the roundings of a total \<open>t\<close>, a query time \<open>q\<close>
  and their difference, as every producer builds it.
\<close>

definition split_record :: "real \<Rightarrow> real \<Rightarrow> perf_record \<Rightarrow> bool" where
  "split_record t q r =
     (execution_time_ms r = py_round2 t \<and> query_time_ms r = py_round2 q \<and>
      return_time_ms r = py_round2 (t - q))"

text \<open>
  What the proofs establish for a record of the generator and of the estimator. The
  bounds hold when the random source returns values of the unit interval; for the
  estimator the last bound holds when both row counts are positive.
\<close>

definition gen_ok :: "sampler \<Rightarrow> perf_record \<Rightarrow> bool" where
  "gen_ok mt r =
     (\<exists>t q. split_record t q r \<and>
        (unit_samples mt \<longrightarrow> 72 / 10 \<le> t \<and> 0 \<le> q \<and> q \<le> t \<and> 1 \<le> rows_returned r))"

definition est_ok :: "sampler \<Rightarrow> bool \<Rightarrow> perf_record \<Rightarrow> bool" where
  "est_ok mt nonempty r =
     (\<exists>t q. split_record t q r \<and>
        (unit_samples mt \<longrightarrow> 0 \<le> t \<and> 0 \<le> q \<and> q \<le> t \<and> 0 \<le> rows_returned r \<and>
           (nonempty \<longrightarrow> 47 / 100 \<le> t)))"

text \<open>
  The per-database factor of the estimator's base time, read off the two branches of
  \<open>estimator_base_time\<close> for the simple and the complex scenarios.
\<close>

definition coefficient :: "string \<Rightarrow> string \<Rightarrow> real" where
  "coefficient ty db =
     (if ty = ''simple'' then
        (if db = ''PostgreSQL'' then 80 else if db = ''PostgreSQL_indexed'' then 40
         else if db = ''DuckDB'' then 30 else if db = ''DuckDB_indexed'' then 28 else 100)
      else
        (if db = ''PostgreSQL'' then 200 else if db = ''PostgreSQL_indexed'' then 150
         else if db = ''DuckDB'' then 100 else if db = ''DuckDB_indexed'' then 95 else 300))"

text \<open>
  The readings of \<^verbatim>\<open>time.time()\<close> do not go backwards within any timed run.
\<close>

definition monotone_clock :: "(nat \<Rightarrow> run) \<Rightarrow> bool" where
  "monotone_clock runs =
     (\<forall>i. case runs i of Timed start_time query_end_time end_time n \<Rightarrow>
             start_time \<le> query_end_time \<and> query_end_time \<le> end_time
           | Raised \<Rightarrow> True)"

section \<open>Concrete inputs\<close>

text \<open>
  A random source that always returns one half, and one that always returns zero; a
  generator state; three timed runs of 1.002 ms each, of which 0.496 ms are spent
  fetching; three timed runs whose three readings fall into one clock tick; three timed
  runs in which the clock steps back by a millisecond between the second and the third
  reading; a data directory with no file in it and a reader that fails; two tables
  already loaded.
\<close>

definition half_sampler :: sampler where
  "half_sampler k i = 1 / 2"

definition fresh_rng :: rng_state where
  "fresh_rng = \<lparr>rng_seed = 0, rng_pos = 0\<rparr>"

definition zero_sampler :: sampler where
  "zero_sampler k i = 0"

definition boundary_runs :: "nat \<Rightarrow> run" where
  "boundary_runs i = Timed 1000 (1000 + 506 / 1000000) (1000 + 1002 / 1000000) 5"

definition tick_runs :: "nat \<Rightarrow> run" where
  "tick_runs i = Timed 1000 1000 1000 5"

definition stepback_runs :: "nat \<Rightarrow> run" where
  "stepback_runs i = Timed 1000 (1000 + 2 / 1000) (1000 + 1 / 1000) 5"

definition no_file :: "data_file \<Rightarrow> bool" where
  "no_file f = False"

definition unreadable :: "data_file \<Rightarrow> string \<Rightarrow> exn + dataframe" where
  "unreadable f encoding = Inl OSError"

definition loaded_tables :: tables where
  "loaded_tables = [(''orders'', 10000), (''order_items'', 20000)]"

text \<open>
  A data directory in which every file exists; a reader for empty files (pandas raises
  \<^verbatim>\<open>EmptyDataError\<close> whatever the encoding); a reader for files that are not valid gbk
  but parse as utf-8 into three rows.
\<close>

definition all_files :: "data_file \<Rightarrow> bool" where
  "all_files f = True"

definition empty_csv :: "data_file \<Rightarrow> string \<Rightarrow> exn + dataframe" where
  "empty_csv f encoding = Inl EmptyDataError"

definition utf8_csv :: "data_file \<Rightarrow> string \<Rightarrow> exn + dataframe" where
  "utf8_csv f encoding = (if encoding = ''gbk'' then Inl UnicodeDecodeError else Inr 3)"

section \<open>The specification's wording of two steps, for comparison\<close>

text \<open>
  Follows the spec's words, not the source: the loop over the candidate encodings that
  tries the next candidate after any failure of \<^verbatim>\<open>pd.read_csv\<close>. It is compared with
  \<open>try_encodings\<close>, which is the source.
\<close>

fun spec_try_encodings ::
  "data_file \<Rightarrow> (string \<Rightarrow> exn + dataframe) \<Rightarrow> string list \<Rightarrow> event list
     \<Rightarrow> event list \<times> (exn + dataframe option)" where
  "spec_try_encodings f rd [] evs = (evs, Inr None)"
| "spec_try_encodings f rd (encoding # rest) evs =
     (case rd encoding of
        Inr df \<Rightarrow> (evs @ [ReadCsv f encoding], Inr (Some df))
      | Inl e \<Rightarrow> spec_try_encodings f rd rest (evs @ [ReadCsv f encoding]))"

text \<open>
  Follows the spec's words, not the source: the estimator's jitter and split step taken
  to be the generator's, a jitter of ten percent either way and a query-time fraction
  drawn from the range the generator uses for the query type. It is compared with
  \<open>estimator_jitter_split\<close>, which is the source.
\<close>

definition generator_ratio_range :: "string \<Rightarrow> real \<times> real" where
  "generator_ratio_range ty =
     (if ty = ''simple'' then (6 / 10, 8 / 10)
      else if ty = ''complex'' then (7 / 10, 85 / 100)
      else (85 / 100, 95 / 100))"

definition spec_estimator_jitter_split ::
  "sampler \<Rightarrow> string \<Rightarrow> string \<Rightarrow> real \<Rightarrow> rng_state \<Rightarrow> (real \<times> real \<times> real) \<times> rng_state" where
  "spec_estimator_jitter_split mt ty db base_time st =
     (let (lo, hi) = generator_ratio_range ty in jitter_split mt lo hi base_time st)"

section \<open>Rounding, loops and the shape of a record\<close>

lemma py_round_err: "\<bar>of_int (py_round y) - y\<bar> \<le> 1 / 2"
  unfolding py_round_def Let_def by (auto; linarith)

lemma py_round_mono: "x \<le> y \<Longrightarrow> py_round x \<le> py_round y"
proof -
  assume xy: "x \<le> y"
  have fl: "\<lfloor>x\<rfloor> \<le> \<lfloor>y\<rfloor>" using xy by (rule floor_mono)
  show ?thesis
  proof (cases "\<lfloor>x\<rfloor> = \<lfloor>y\<rfloor>")
    case True
    then show ?thesis using xy unfolding py_round_def Let_def by auto
  next
    case False
    then have "\<lfloor>x\<rfloor> + 1 \<le> \<lfloor>y\<rfloor>" using fl by linarith
    moreover have "py_round x \<le> \<lfloor>x\<rfloor> + 1" unfolding py_round_def Let_def by auto
    moreover have "\<lfloor>y\<rfloor> \<le> py_round y" unfolding py_round_def Let_def by auto
    ultimately show ?thesis by linarith
  qed
qed

lemma py_round_of_int: "py_round (of_int n) = n"
  unfolding py_round_def Let_def by simp

lemma dbl_0: "dbl 0 = 0"
  by (simp add: dbl_def)

lemma binade:
  assumes "x \<noteq> 0"
  shows "2 powr (of_int \<lfloor>log 2 \<bar>x\<bar>\<rfloor>) \<le> \<bar>x\<bar>" and "\<bar>x\<bar> < 2 powr (of_int \<lfloor>log 2 \<bar>x\<bar>\<rfloor> + 1)"
proof -
  have "0 < \<bar>x\<bar>" using assms by simp
  then have "2 powr (of_int \<lfloor>log 2 \<bar>x\<bar>\<rfloor>) \<le> \<bar>x\<bar> \<and> \<bar>x\<bar> < 2 powr (of_int \<lfloor>log 2 \<bar>x\<bar>\<rfloor> + 1)"
    using floor_log_eq_powr_iff [of "\<bar>x\<bar>" 2 "\<lfloor>log 2 \<bar>x\<bar>\<rfloor>"] by simp
  then show "2 powr (of_int \<lfloor>log 2 \<bar>x\<bar>\<rfloor>) \<le> \<bar>x\<bar>" and "\<bar>x\<bar> < 2 powr (of_int \<lfloor>log 2 \<bar>x\<bar>\<rfloor> + 1)"
    by simp_all
qed

lemma dbl_at:
  assumes "2 powr (of_int e) \<le> \<bar>x\<bar>" and "\<bar>x\<bar> < 2 powr (of_int e + 1)"
  shows "dbl x = of_int (py_round (x * 2 powr (52 - of_int e))) * 2 powr (of_int e - 52)"
proof -
  have p: "0 < \<bar>x\<bar>" using assms(1) by (smt (verit) powr_gt_zero)
  then have "\<lfloor>log 2 \<bar>x\<bar>\<rfloor> = e"
    using floor_log_eq_powr_iff [of "\<bar>x\<bar>" 2 e] assms by simp
  then show ?thesis using p by (simp add: dbl_def Let_def)
qed

lemma dbl_err: "\<bar>dbl x - x\<bar> \<le> \<bar>x\<bar> / 2 ^ 53"
proof (cases "x = 0")
  case True
  then show ?thesis by (simp add: dbl_0)
next
  case False
  define e where "e = \<lfloor>log 2 \<bar>x\<bar>\<rfloor>"
  define s :: real where "s = 2 powr (of_int e - 52)"
  have s: "0 < s" by (simp add: s_def)
  have inv: "2 powr (52 - of_int e) = 1 / s"
    by (simp add: s_def powr_diff field_simps)
  have d: "dbl x = of_int (py_round (x / s)) * s"
    using False by (simp add: dbl_def Let_def e_def [symmetric] inv s_def [symmetric])
  have "\<bar>of_int (py_round (x / s)) - x / s\<bar> \<le> 1 / 2" by (rule py_round_err)
  then have "\<bar>of_int (py_round (x / s)) - x / s\<bar> * s \<le> (1 / 2) * s"
    using s by (intro mult_right_mono) simp_all
  moreover have "\<bar>of_int (py_round (x / s)) - x / s\<bar> * s = \<bar>of_int (py_round (x / s)) * s - x\<bar>"
  proof -
    have "\<bar>of_int (py_round (x / s)) - x / s\<bar> * s = \<bar>(of_int (py_round (x / s)) - x / s) * s\<bar>"
      using s by (simp add: abs_mult)
    also have "(of_int (py_round (x / s)) - x / s) * s = of_int (py_round (x / s)) * s - x"
      using s by (simp add: field_simps)
    finally show ?thesis .
  qed
  ultimately have 1: "\<bar>dbl x - x\<bar> \<le> s / 2" using d by simp
  have "2 powr (of_int e) \<le> \<bar>x\<bar>" unfolding e_def using False by (rule binade(1))
  moreover have "2 powr (of_int e) = s * 2 ^ 52"
    by (simp add: s_def powr_diff)
  ultimately have "s * 2 ^ 52 \<le> \<bar>x\<bar>" by simp
  then have "s / 2 \<le> \<bar>x\<bar> / 2 ^ 53" by (simp add: field_simps)
  then show ?thesis using 1 by linarith
qed

lemma dbl_range:
  assumes "0 < x"
  shows "2 powr (of_int \<lfloor>log 2 x\<rfloor>) \<le> dbl x" and "dbl x \<le> 2 powr (of_int \<lfloor>log 2 x\<rfloor> + 1)"
proof -
  define e where "e = \<lfloor>log 2 x\<rfloor>"
  define s :: real where "s = 2 powr (of_int e - 52)"
  have s: "0 < s" by (simp add: s_def)
  have ax: "\<bar>x\<bar> = x" using assms by simp
  have inv: "2 powr (52 - of_int e) = 1 / s"
    by (simp add: s_def powr_diff field_simps)
  have d: "dbl x = of_int (py_round (x / s)) * s"
    using assms by (simp add: dbl_def Let_def e_def [symmetric] inv s_def [symmetric])
  have lo: "2 powr (of_int e) \<le> x" and hi: "x < 2 powr (of_int e + 1)"
    using binade [of x] assms by (simp_all add: e_def)
  have pe: "2 powr (of_int e) = s * 2 ^ 52" by (simp add: s_def powr_diff)
  have pe1: "2 powr (of_int e + 1) = s * 2 ^ 53" by (simp add: s_def powr_diff powr_add)
  have "s * 2 ^ 52 \<le> x" using lo [unfolded pe] .
  then have "2 ^ 52 \<le> x / s" using s by (simp add: field_simps)
  then have "py_round (of_int (2 ^ 52)) \<le> py_round (x / s)"
    by (intro py_round_mono) simp
  then have a: "(2 ^ 52 :: int) \<le> py_round (x / s)" by (simp only: py_round_of_int)
  have "x < s * 2 ^ 53" using hi [unfolded pe1] .
  then have "x / s \<le> 2 ^ 53" using s by (simp add: field_simps)
  then have "py_round (x / s) \<le> py_round (of_int (2 ^ 53))"
    by (intro py_round_mono) simp
  then have b: "py_round (x / s) \<le> (2 ^ 53 :: int)" by (simp only: py_round_of_int)
  have "(of_int (2 ^ 52) :: real) \<le> of_int (py_round (x / s))" using a by (simp only: of_int_le_iff)
  then have "(2 ^ 52 :: real) \<le> of_int (py_round (x / s))" by simp
  then have "2 ^ 52 * s \<le> of_int (py_round (x / s)) * s" using s by (intro mult_right_mono) simp_all
  then show "2 powr (of_int \<lfloor>log 2 x\<rfloor>) \<le> dbl x"
    using d pe by (simp add: e_def [symmetric] mult.commute)
  have "(of_int (py_round (x / s)) :: real) \<le> of_int (2 ^ 53)" using b by (simp only: of_int_le_iff)
  then have "of_int (py_round (x / s)) \<le> (2 ^ 53 :: real)" by simp
  then have "of_int (py_round (x / s)) * s \<le> 2 ^ 53 * s" using s by (intro mult_right_mono) simp_all
  then show "dbl x \<le> 2 powr (of_int \<lfloor>log 2 x\<rfloor> + 1)"
    using d pe1 by (simp add: e_def [symmetric] mult.commute)
qed

lemma dbl_pos: "0 < x \<Longrightarrow> 0 < dbl x"
  using dbl_range(1) [of x] by (smt (verit) powr_gt_zero)

lemma dbl_mono:
  assumes "0 \<le> x" and "x \<le> y"
  shows "dbl x \<le> dbl y"
proof (cases "x = 0")
  case True
  show ?thesis
  proof (cases "y = 0")
    case True
    then show ?thesis using \<open>x = 0\<close> by simp
  next
    case False
    then have "0 < dbl y" using assms \<open>x = 0\<close> by (intro dbl_pos) simp
    then show ?thesis using \<open>x = 0\<close> by (simp add: dbl_0)
  qed
next
  case False
  then have x: "0 < x" using assms(1) by simp
  then have y: "0 < y" using assms(2) by linarith
  define e where "e = \<lfloor>log 2 x\<rfloor>"
  define e' where "e' = \<lfloor>log 2 y\<rfloor>"
  have "log 2 x \<le> log 2 y" using x y assms(2) by simp
  then have ee: "e \<le> e'" unfolding e_def e'_def by (rule floor_mono)
  show ?thesis
  proof (cases "e = e'")
    case True
    define s :: real where "s = 2 powr (of_int e - 52)"
    have s: "0 < s" by (simp add: s_def)
    have inv: "2 powr (52 - of_int e) = 1 / s"
      by (simp add: s_def powr_diff field_simps)
    have dx: "dbl x = of_int (py_round (x / s)) * s"
      using x by (simp add: dbl_def Let_def e_def [symmetric] inv s_def [symmetric])
    have dy: "dbl y = of_int (py_round (y / s)) * s"
      using y by (simp add: dbl_def Let_def e'_def [symmetric] True [symmetric] inv s_def [symmetric])
    have "x / s \<le> y / s" using assms(2) s by (simp add: divide_right_mono)
    then have "py_round (x / s) \<le> py_round (y / s)" by (rule py_round_mono)
    then have "(of_int (py_round (x / s)) :: real) \<le> of_int (py_round (y / s))" by simp
    then have "of_int (py_round (x / s)) * s \<le> of_int (py_round (y / s)) * s"
      using s by (intro mult_right_mono) simp_all
    then show ?thesis using dx dy by simp
  next
    case False
    then have "e + 1 \<le> e'" using ee by linarith
    then have "(of_int e + 1 :: real) \<le> of_int e'" by linarith
    then have "(2::real) powr (of_int e + 1) \<le> 2 powr (of_int e')" by (intro powr_mono) simp_all
    moreover have "dbl x \<le> 2 powr (of_int e + 1)" unfolding e_def using x by (rule dbl_range(2))
    moreover have "2 powr (of_int e') \<le> dbl y" unfolding e'_def using y by (rule dbl_range(1))
    ultimately show ?thesis by linarith
  qed
qed

lemma dbl_1: "dbl 1 = 1"
  using dbl_at [of 0 1] by (simp add: py_round_def Let_def powr_neg_numeral)

lemma dbl_100: "dbl 100 = 100"
proof -
  have "dbl 100 = of_int (py_round (100 * 2 powr (52 - of_int 6))) * 2 powr (of_int 6 - 52)"
    by (rule dbl_at) simp_all
  also have "100 * 2 powr (52 - of_int 6) = (of_int (100 * 2 ^ 46) :: real)" by simp
  finally show ?thesis by (simp only: py_round_of_int) (simp add: powr_neg_numeral)
qed

lemma dbl_half: "dbl (1 / 2) = 1 / 2"
proof -
  have "dbl (1 / 2) = of_int (py_round ((1 / 2) * 2 powr (52 - of_int (- 1)))) * 2 powr (of_int (- 1) - 52)"
    by (rule dbl_at) (simp_all add: powr_neg_numeral powr_minus)
  also have "(1 / 2) * 2 powr (52 - of_int (- 1)) = (of_int (2 ^ 52) :: real)" by simp
  finally show ?thesis by (simp only: py_round_of_int) (simp add: powr_neg_numeral)
qed

lemma dbl_51: "dbl (51 / 100) = 4593671619917906 / 2 ^ 53"
proof -
  have "dbl (51 / 100) = of_int (py_round ((51 / 100) * 2 powr (52 - of_int (- 1)))) * 2 powr (of_int (- 1) - 52)"
    by (rule dbl_at) (simp_all add: powr_neg_numeral powr_minus)
  also have "py_round ((51 / 100) * 2 powr (52 - of_int (- 1))) = 4593671619917906"
    by (simp add: py_round_def Let_def)
  finally show ?thesis by (simp add: powr_neg_numeral)
qed

lemma dec2_mono: "x \<le> y \<Longrightarrow> dec2 x \<le> dec2 y"
  unfolding dec2_def using py_round_mono [of "x * 100" "y * 100"]
  by (simp add: divide_right_mono)

lemma dec2_0: "dec2 0 = 0"
  by (simp add: dec2_def py_round_def)

lemma dec2_split: "\<bar>dec2 q + dec2 (t - q) - dec2 t\<bar> \<le> 1 / 100"
proof -
  let ?A = "py_round (q * 100)" and ?B = "py_round ((t - q) * 100)" and ?C = "py_round (t * 100)"
  have a: "\<bar>of_int ?A - q * 100\<bar> \<le> 1 / 2" by (rule py_round_err)
  have b: "\<bar>of_int ?B - (t - q) * 100\<bar> \<le> 1 / 2" by (rule py_round_err)
  have c: "\<bar>of_int ?C - t * 100\<bar> \<le> 1 / 2" by (rule py_round_err)
  have e: "(of_int (?A + ?B - ?C) :: real) =
      (of_int ?A - q * 100) + (of_int ?B - (t - q) * 100) - (of_int ?C - t * 100)"
    by (simp add: algebra_simps)
  have "\<bar>(of_int (?A + ?B - ?C) :: real)\<bar> \<le> 3 / 2"
    unfolding e using a b c by linarith
  then have "\<bar>(of_int (?A + ?B - ?C) :: real)\<bar> < 2" by linarith
  then have "\<bar>?A + ?B - ?C\<bar> < 2" by linarith
  then have "\<bar>?A + ?B - ?C\<bar> \<le> 1" by linarith
  then have "\<bar>(of_int (?A + ?B - ?C) :: real)\<bar> \<le> 1" by linarith
  then show ?thesis unfolding dec2_def
    by (simp add: field_simps)
qed

lemma dec2_split_near:
  assumes "\<bar>q + a - t\<bar> < 1 / 200"
  shows "\<bar>dec2 q + dec2 a - dec2 t\<bar> \<le> 1 / 100"
proof -
  let ?A = "py_round (q * 100)" and ?B = "py_round (a * 100)" and ?C = "py_round (t * 100)"
  have a: "\<bar>of_int ?A - q * 100\<bar> \<le> 1 / 2" by (rule py_round_err)
  have b: "\<bar>of_int ?B - a * 100\<bar> \<le> 1 / 2" by (rule py_round_err)
  have c: "\<bar>of_int ?C - t * 100\<bar> \<le> 1 / 2" by (rule py_round_err)
  have e: "(of_int (?A + ?B - ?C) :: real) =
      (of_int ?A - q * 100) + (of_int ?B - a * 100) - (of_int ?C - t * 100) + (q + a - t) * 100"
    by (simp add: algebra_simps)
  have "\<bar>(q + a - t) * 100\<bar> = \<bar>q + a - t\<bar> * \<bar>100\<bar>" by (rule abs_mult)
  also have "\<dots> = \<bar>q + a - t\<bar> * 100" by simp
  also have "\<dots> < 1 / 2" using assms by simp
  finally have d: "\<bar>(q + a - t) * 100\<bar> < 1 / 2" .
  have "\<bar>(of_int (?A + ?B - ?C) :: real)\<bar> < 2"
    unfolding e using a b c d by linarith
  then have "\<bar>?A + ?B - ?C\<bar> < 2" by linarith
  then have "\<bar>?A + ?B - ?C\<bar> \<le> 1" by linarith
  then have "\<bar>(of_int (?A + ?B - ?C) :: real)\<bar> \<le> 1" by linarith
  then show ?thesis unfolding dec2_def
    by (simp add: field_simps)
qed

lemma py_round2_0: "py_round2 0 = 0"
  by (simp add: py_round2_def dec2_0 dbl_0)

lemma py_round2_mono: "0 \<le> x \<Longrightarrow> x \<le> y \<Longrightarrow> py_round2 x \<le> py_round2 y"
proof -
  assume x: "0 \<le> x" and xy: "x \<le> y"
  have "dec2 0 \<le> dec2 x" using x by (rule dec2_mono)
  then have "0 \<le> dec2 x" by (simp add: dec2_0)
  moreover have "dec2 x \<le> dec2 y" using xy by (rule dec2_mono)
  ultimately show ?thesis unfolding py_round2_def by (rule dbl_mono)
qed

lemma py_round2_pos: "1 / 100 \<le> x \<Longrightarrow> 0 < py_round2 x"
proof -
  assume "1 / 100 \<le> x"
  then have "dec2 (1 / 100) \<le> dec2 x" by (rule dec2_mono)
  moreover have "dec2 (1 / 100) = 1 / 100" by (simp add: dec2_def py_round_def)
  ultimately have "0 < dec2 x" by linarith
  then show ?thesis unfolding py_round2_def by (rule dbl_pos)
qed

lemma dbl_err_stored: "\<bar>dbl x - x\<bar> \<le> \<bar>dbl x\<bar> / 2 ^ 52"
proof -
  have e: "\<bar>dbl x - x\<bar> \<le> \<bar>x\<bar> / 2 ^ 53" by (rule dbl_err)
  have "\<bar>x\<bar> \<le> \<bar>dbl x\<bar> + \<bar>dbl x - x\<bar>" by linarith
  then have "\<bar>x\<bar> \<le> \<bar>dbl x\<bar> + \<bar>x\<bar> / 2 ^ 53" using e by linarith
  then have "\<bar>x\<bar> \<le> 2 * \<bar>dbl x\<bar>" by simp
  then show ?thesis using e by simp
qed

lemma gap_bound:
  assumes "\<bar>Q + R - T\<bar> \<le> 1 / 100"
  shows "\<bar>dbl Q + dbl R - dbl T\<bar> \<le> 1 / 100 + (\<bar>dbl Q\<bar> + \<bar>dbl R\<bar> + \<bar>dbl T\<bar>) / 2 ^ 50"
    and "\<bar>dbl (dbl (dbl Q + dbl R) - dbl T)\<bar> \<le>
           1 / 100 + (\<bar>dbl Q\<bar> + \<bar>dbl R\<bar> + \<bar>dbl T\<bar>) / 2 ^ 50"
proof -
  define q r e where "q = dbl Q" and "r = dbl R" and "e = dbl T"
  define S where "S = \<bar>q\<bar> + \<bar>r\<bar> + \<bar>e\<bar>"
  have S0: "0 \<le> S" by (simp add: S_def)
  have eq: "\<bar>q - Q\<bar> \<le> \<bar>q\<bar> / 2 ^ 52" unfolding q_def by (rule dbl_err_stored)
  have er: "\<bar>r - R\<bar> \<le> \<bar>r\<bar> / 2 ^ 52" unfolding r_def by (rule dbl_err_stored)
  have ee: "\<bar>e - T\<bar> \<le> \<bar>e\<bar> / 2 ^ 52" unfolding e_def by (rule dbl_err_stored)
  have "\<bar>q + r - e\<bar> \<le> \<bar>Q + R - T\<bar> + \<bar>q - Q\<bar> + \<bar>r - R\<bar> + \<bar>e - T\<bar>" by linarith
  then have "\<bar>q + r - e\<bar> \<le> 1 / 100 + \<bar>q\<bar> / 2 ^ 52 + \<bar>r\<bar> / 2 ^ 52 + \<bar>e\<bar> / 2 ^ 52"
    using assms eq er ee by linarith
  then have ex: "\<bar>q + r - e\<bar> \<le> 1 / 100 + S / 2 ^ 52"
    by (simp add: S_def add_divide_distrib)
  define s where "s = dbl (q + r)"
  have "\<bar>s - (q + r)\<bar> \<le> \<bar>q + r\<bar> / 2 ^ 53" unfolding s_def by (rule dbl_err)
  moreover have "\<bar>q + r\<bar> \<le> S" unfolding S_def by linarith
  ultimately have es: "\<bar>s - (q + r)\<bar> \<le> S / 2 ^ 53"
    by (smt (verit) divide_right_mono zero_le_numeral zero_le_power)
  have "\<bar>s - e\<bar> \<le> \<bar>s - (q + r)\<bar> + \<bar>q + r\<bar> + \<bar>e\<bar>" by linarith
  moreover have "\<bar>q + r\<bar> + \<bar>e\<bar> \<le> S" unfolding S_def by linarith
  ultimately have "\<bar>s - e\<bar> \<le> S / 2 ^ 53 + S" using es by linarith
  then have se: "\<bar>s - e\<bar> \<le> 2 * S" using S0 by simp
  have "\<bar>dbl (s - e) - (s - e)\<bar> \<le> \<bar>s - e\<bar> / 2 ^ 53" by (rule dbl_err)
  then have ed: "\<bar>dbl (s - e) - (s - e)\<bar> \<le> S / 2 ^ 52" using se by simp
  have "\<bar>dbl (s - e)\<bar> \<le> \<bar>dbl (s - e) - (s - e)\<bar> + \<bar>s - (q + r)\<bar> + \<bar>q + r - e\<bar>" by linarith
  then have "\<bar>dbl (s - e)\<bar> \<le> 1 / 100 + S / 2 ^ 52 + S / 2 ^ 53 + S / 2 ^ 52"
    using ed es ex by linarith
  then have fl: "\<bar>dbl (s - e)\<bar> \<le> 1 / 100 + S / 2 ^ 50" using S0 by simp
  have "S / 2 ^ 52 \<le> S / 2 ^ 50" using S0 by simp
  then show "\<bar>dbl Q + dbl R - dbl T\<bar> \<le> 1 / 100 + (\<bar>dbl Q\<bar> + \<bar>dbl R\<bar> + \<bar>dbl T\<bar>) / 2 ^ 50"
    using ex unfolding S_def q_def r_def e_def by linarith
  show "\<bar>dbl (dbl (dbl Q + dbl R) - dbl T)\<bar> \<le>
           1 / 100 + (\<bar>dbl Q\<bar> + \<bar>dbl R\<bar> + \<bar>dbl T\<bar>) / 2 ^ 50"
    using fl unfolding S_def s_def q_def r_def e_def .
qed

lemma py_round2_split_near:
  assumes "\<bar>q + a - t\<bar> < 1 / 200"
  shows "\<bar>py_round2 q + py_round2 a - py_round2 t\<bar> \<le>
           1 / 100 + (\<bar>py_round2 q\<bar> + \<bar>py_round2 a\<bar> + \<bar>py_round2 t\<bar>) / 2 ^ 50"
  unfolding py_round2_def by (rule gap_bound(1) [OF dec2_split_near [OF assms]])

lemma fold_records:
  fixes f :: "'x \<Rightarrow> 'a list \<times> 'st \<Rightarrow> 'a list \<times> 'st"
  assumes step: "\<And>x s. x \<in> set xs \<Longrightarrow> \<forall>r\<in>set (fst s). P r \<Longrightarrow> \<forall>r\<in>set (fst (f x s)). P r"
    and init: "\<forall>r\<in>set (fst s). P r"
  shows "\<forall>r\<in>set (fst (fold f xs s)). P r"
proof -
  have "\<forall>z :: 'a list \<times> 'st. (\<forall>r\<in>set (fst z). P r) \<longrightarrow> (\<forall>r\<in>set (fst (fold f ys z)). P r)"
    if "set ys \<subseteq> set xs" for ys
    using that
  proof (induction ys)
    case Nil
    show ?case by simp
  next
    case (Cons y ys)
    have y: "y \<in> set xs" using Cons.prems by simp
    have ih: "\<forall>z :: 'a list \<times> 'st. (\<forall>r\<in>set (fst z). P r) \<longrightarrow> (\<forall>r\<in>set (fst (fold f ys z)). P r)"
      using Cons by simp
    show ?case
    proof (intro allI impI)
      fix z :: "'a list \<times> 'st"
      assume "\<forall>r\<in>set (fst z). P r"
      then have "\<forall>r\<in>set (fst (f y z)). P r" using step [OF y] by blast
      then have "\<forall>r\<in>set (fst (fold f ys (f y z))). P r" using ih by blast
      then show "\<forall>r\<in>set (fst (fold f (y # ys) z)). P r" by simp
    qed
  qed
  then show ?thesis using init by blast
qed

lemma uniform_bounds:
  assumes "unit_samples mt" and "lo \<le> hi"
  shows "lo \<le> fst (np_random_uniform mt lo hi st)" and "fst (np_random_uniform mt lo hi st) \<le> hi"
proof -
  let ?u = "mt (rng_seed st) (rng_pos st)"
  have u: "0 \<le> ?u" "?u < 1" using assms(1) by (simp_all add: unit_samples_def)
  have d: "0 \<le> hi - lo" using assms(2) by simp
  have "0 \<le> (hi - lo) * ?u" using d u(1) by simp
  then show "lo \<le> fst (np_random_uniform mt lo hi st)" by (simp add: np_random_uniform_def)
  have "(hi - lo) * ?u \<le> (hi - lo) * 1" using d u(2) by (intro mult_left_mono) simp_all
  then show "fst (np_random_uniform mt lo hi st) \<le> hi" by (simp add: np_random_uniform_def)
qed

lemma jitter_split_shape:
  "\<exists>t q st'. jitter_split mt lo hi b st = ((t, q, t - q), st') \<and>
     (unit_samples mt \<longrightarrow> 0 \<le> lo \<longrightarrow> lo \<le> hi \<longrightarrow> hi \<le> 1 \<longrightarrow> 0 \<le> b \<longrightarrow>
        b * (9 / 10) \<le> t \<and> 0 \<le> q \<and> q \<le> t)"
proof -
  obtain j st1 where j: "np_random_uniform mt (9 / 10) (11 / 10) st = (j, st1)" by force
  obtain ra st2 where ra: "np_random_uniform mt lo hi st1 = (ra, st2)" by force
  have eq: "jitter_split mt lo hi b st = ((b * j, b * j * ra, b * j - b * j * ra), st2)"
    by (simp add: jitter_split_def j ra Let_def)
  have "b * (9 / 10) \<le> b * j \<and> 0 \<le> b * j * ra \<and> b * j * ra \<le> b * j"
    if us: "unit_samples mt" and lo: "0 \<le> lo" "lo \<le> hi" "hi \<le> 1" and b: "0 \<le> b"
  proof -
    have "9 / 10 \<le> j" using uniform_bounds(1) [OF us, of "9 / 10" "11 / 10" st] j by simp
    then have 1: "b * (9 / 10) \<le> b * j" using b by (intro mult_left_mono) simp_all
    have "lo \<le> ra" "ra \<le> hi"
      using uniform_bounds [OF us lo(2), of st1] ra by simp_all
    then have r: "0 \<le> ra" "ra \<le> 1" using lo by linarith+
    have "0 \<le> b * (9 / 10)" using b by simp
    then have t0: "0 \<le> b * j" using 1 by linarith
    have 2: "0 \<le> b * j * ra" using t0 r(1) by simp
    have 3: "b * j * ra \<le> b * j * 1" using t0 r(2) by (intro mult_left_mono) simp_all
    show ?thesis using 1 2 3 by simp
  qed
  then show ?thesis using eq by blast
qed

lemma simple_base_time_ge: "unit_samples mt \<Longrightarrow> 8 \<le> fst (simple_base_time mt db st)"
  unfolding simple_base_time_def
  using uniform_bounds(1) [of mt 100 500 st] uniform_bounds(1) [of mt 50 200 st]
    uniform_bounds(1) [of mt 40 150 st] uniform_bounds(1) [of mt 35 140 st]
    uniform_bounds(1) [of mt 150 600 st]
  by (simp split: if_splits)

lemma complex_base_time_ge: "unit_samples mt \<Longrightarrow> 8 \<le> fst (complex_base_time mt db st)"
  unfolding complex_base_time_def
  using uniform_bounds(1) [of mt 500 2000 st] uniform_bounds(1) [of mt 300 1500 st]
    uniform_bounds(1) [of mt 200 1000 st] uniform_bounds(1) [of mt 180 950 st]
    uniform_bounds(1) [of mt 800 3000 st]
  by (simp split: if_splits)

lemma crud_base_time_ge: "unit_samples mt \<Longrightarrow> 8 \<le> fst (crud_base_time mt db st)"
proof -
  assume us: "unit_samples mt"
  obtain b st1 where b: "(if startswith db ''PostgreSQL'' then np_random_uniform mt 10 50 st
             else np_random_uniform mt 8 40 st) = (b, st1)" by force
  have "8 \<le> b"
    using b uniform_bounds(1) [OF us, of 10 50 st] uniform_bounds(1) [OF us, of 8 40 st]
    by (auto split: if_splits)
  moreover have "15 \<le> fst (np_random_uniform mt 15 60 st1)"
    using uniform_bounds(1) [OF us, of 15 60 st1] by simp
  ultimately show ?thesis
    unfolding crud_base_time_def b by (simp add: Let_def)
qed

lemma py_int_ge: "1 \<le> x \<Longrightarrow> 1 \<le> py_int x"
  by (simp add: py_int_def le_floor_iff)

lemma simple_body_step:
  "\<exists>r st'. simple_body mt query db s = (fst s @ [r], st') \<and> gen_ok mt r"
proof -
  obtain data st where s: "s = (data, st)" by force
  obtain b st1 where b: "simple_base_time mt db st = (b, st1)" by force
  obtain t q st3 where js: "jitter_split mt (6 / 10) (8 / 10) b st1 = ((t, q, t - q), st3)"
    and jb: "unit_samples mt \<longrightarrow> 0 \<le> b \<longrightarrow> b * (9 / 10) \<le> t \<and> 0 \<le> q \<and> q \<le> t"
    using jitter_split_shape [of mt "6 / 10" "8 / 10" b st1] by auto
  obtain u st4 where u: "np_random_uniform mt 100 10000 st3 = (u, st4)" by force
  have b8: "unit_samples mt \<longrightarrow> 8 \<le> b" using simple_base_time_ge [of mt db st] b by simp
  have u1: "unit_samples mt \<longrightarrow> 1 \<le> u" using uniform_bounds(1) [of mt 100 10000 st3] u by auto
  have eq: "simple_body mt query db s =
      (data @ [\<lparr>query_name = query, database = db, execution_time_ms = py_round2 t,
                  query_time_ms = py_round2 q, return_time_ms = py_round2 (t - q),
                  rows_returned = py_int u, query_type = ''simple''\<rparr>], st4)"
    by (simp only: simple_body_def Let_def prod.case s b js u)
  have "gen_ok mt \<lparr>query_name = query, database = db, execution_time_ms = py_round2 t,
                  query_time_ms = py_round2 q, return_time_ms = py_round2 (t - q),
                  rows_returned = py_int u, query_type = ''simple''\<rparr>"
    unfolding gen_ok_def split_record_def
    using jb b8 u1 py_int_ge [of u]
    by (intro exI [of _ t] exI [of _ q]) auto
  moreover have "fst s = data" by (simp add: s)
  ultimately show ?thesis using eq by blast
qed

lemma complex_body_step:
  "\<exists>r st'. complex_body mt query db s = (fst s @ [r], st') \<and> gen_ok mt r"
proof -
  obtain data st where s: "s = (data, st)" by force
  obtain b st1 where b: "complex_base_time mt db st = (b, st1)" by force
  obtain t q st3 where js: "jitter_split mt (7 / 10) (85 / 100) b st1 = ((t, q, t - q), st3)"
    and jb: "unit_samples mt \<longrightarrow> 0 \<le> b \<longrightarrow> b * (9 / 10) \<le> t \<and> 0 \<le> q \<and> q \<le> t"
    using jitter_split_shape [of mt "7 / 10" "85 / 100" b st1] by auto
  obtain u st4 where u: "np_random_uniform mt 1000 50000 st3 = (u, st4)" by force
  have b8: "unit_samples mt \<longrightarrow> 8 \<le> b" using complex_base_time_ge [of mt db st] b by simp
  have u1: "unit_samples mt \<longrightarrow> 1 \<le> u" using uniform_bounds(1) [of mt 1000 50000 st3] u by auto
  have eq: "complex_body mt query db s =
      (data @ [\<lparr>query_name = query, database = db, execution_time_ms = py_round2 t,
                  query_time_ms = py_round2 q, return_time_ms = py_round2 (t - q),
                  rows_returned = py_int u, query_type = ''complex''\<rparr>], st4)"
    by (simp only: complex_body_def Let_def prod.case s b js u)
  have "gen_ok mt \<lparr>query_name = query, database = db, execution_time_ms = py_round2 t,
                  query_time_ms = py_round2 q, return_time_ms = py_round2 (t - q),
                  rows_returned = py_int u, query_type = ''complex''\<rparr>"
    unfolding gen_ok_def split_record_def
    using jb b8 u1 py_int_ge [of u]
    by (intro exI [of _ t] exI [of _ q]) auto
  moreover have "fst s = data" by (simp add: s)
  ultimately show ?thesis using eq by blast
qed

lemma crud_body_step:
  "crud_body mt operation db s = s \<or>
   (\<exists>r st'. crud_body mt operation db s = (fst s @ [r], st') \<and> gen_ok mt r)"
proof (cases "db = ''InfluxDB'' \<and> operation \<in> set [''D1'', ''U1'']")
  case True
  then show ?thesis by (simp add: crud_body_def)
next
  case False
  obtain data st where s: "s = (data, st)" by force
  obtain b st1 where b: "crud_base_time mt db st = (b, st1)" by force
  obtain t q st3 where js: "jitter_split mt (85 / 100) (95 / 100) b st1 = ((t, q, t - q), st3)"
    and jb: "unit_samples mt \<longrightarrow> 0 \<le> b \<longrightarrow> b * (9 / 10) \<le> t \<and> 0 \<le> q \<and> q \<le> t"
    using jitter_split_shape [of mt "85 / 100" "95 / 100" b st1] by auto
  obtain rows st4 where rw: "(if operation \<noteq> ''I1'' then (1, st3)
                else (case np_random_uniform mt 1 100 st3 of (u, st') \<Rightarrow> (py_int u, st'))) = (rows, st4)"
    by force
  have b8: "unit_samples mt \<longrightarrow> 8 \<le> b" using crud_base_time_ge [of mt db st] b by simp
  have r1: "unit_samples mt \<longrightarrow> 1 \<le> rows"
  proof (cases "operation \<noteq> ''I1''")
    case True
    then show ?thesis using rw by simp
  next
    case False
    then have "rows = py_int (fst (np_random_uniform mt 1 100 st3))"
      using rw by (simp add: split_def Let_def)
    then show ?thesis
      using uniform_bounds(1) [of mt 1 100 st3] py_int_ge by auto
  qed
  have eq: "crud_body mt operation db s =
      (data @ [\<lparr>query_name = operation, database = db, execution_time_ms = py_round2 t,
                  query_time_ms = py_round2 q, return_time_ms = py_round2 (t - q),
                  rows_returned = rows, query_type = ''crud''\<rparr>], st4)"
    using False by (simp only: crud_body_def Let_def prod.case s b js rw if_False)
  have "gen_ok mt \<lparr>query_name = operation, database = db, execution_time_ms = py_round2 t,
                  query_time_ms = py_round2 q, return_time_ms = py_round2 (t - q),
                  rows_returned = rows, query_type = ''crud''\<rparr>"
    unfolding gen_ok_def split_record_def
    using jb b8 r1
    by (intro exI [of _ t] exI [of _ q]) auto
  moreover have "fst s = data" by (simp add: s)
  ultimately show ?thesis using eq by blast
qed

lemma appended_ok:
  assumes "f s = s \<or> (\<exists>r st'. f s = (fst s @ [r], st') \<and> P r)" and "\<forall>r\<in>set (fst s). P r"
  shows "\<forall>r\<in>set (fst (f s)). P r"
  using assms by auto

lemma simple_body_ok:
  "\<forall>r\<in>set (fst s). gen_ok mt r \<Longrightarrow> \<forall>r\<in>set (fst (simple_body mt q db s)). gen_ok mt r"
  by (rule appended_ok [OF disjI2 [OF simple_body_step]])

lemma complex_body_ok:
  "\<forall>r\<in>set (fst s). gen_ok mt r \<Longrightarrow> \<forall>r\<in>set (fst (complex_body mt q db s)). gen_ok mt r"
  by (rule appended_ok [OF disjI2 [OF complex_body_step]])

lemma crud_body_ok:
  "\<forall>r\<in>set (fst s). gen_ok mt r \<Longrightarrow> \<forall>r\<in>set (fst (crud_body mt q db s)). gen_ok mt r"
  by (rule appended_ok [OF crud_body_step])

lemma generate_ok: "\<forall>r\<in>set (fst (generate_sample_data mt to_csv g)). gen_ok mt r"
proof -
  let ?st0 = "np_random_seed 42 g"
  let ?s1 = "fold (\<lambda>query. fold (\<lambda>db. simple_body mt query db) databases) simple_queries ([], ?st0)"
  let ?s2 = "fold (\<lambda>query. fold (\<lambda>db. complex_body mt query db) databases) complex_queries ?s1"
  let ?s3 = "fold (\<lambda>operation. fold (\<lambda>db. crud_body mt operation db) databases) crud_operations ?s2"
  have i1: "\<forall>r\<in>set (fst (fold (\<lambda>db. simple_body mt q db) databases s)). gen_ok mt r"
    if "\<forall>r\<in>set (fst s). gen_ok mt r" for q s
    by (rule fold_records) (rule simple_body_ok, assumption, rule that)
  have i2: "\<forall>r\<in>set (fst (fold (\<lambda>db. complex_body mt q db) databases s)). gen_ok mt r"
    if "\<forall>r\<in>set (fst s). gen_ok mt r" for q s
    by (rule fold_records) (rule complex_body_ok, assumption, rule that)
  have i3: "\<forall>r\<in>set (fst (fold (\<lambda>db. crud_body mt q db) databases s)). gen_ok mt r"
    if "\<forall>r\<in>set (fst s). gen_ok mt r" for q s
    by (rule fold_records) (rule crud_body_ok, assumption, rule that)
  have 0: "\<forall>r\<in>set (fst (([], ?st0) :: perf_record list \<times> rng_state)). gen_ok mt r" by simp
  have 1: "\<forall>r\<in>set (fst ?s1). gen_ok mt r"
    by (rule fold_records) (rule i1, assumption, rule 0)
  have 2: "\<forall>r\<in>set (fst ?s2). gen_ok mt r"
    by (rule fold_records) (rule i2, assumption, rule 1)
  have 3: "\<forall>r\<in>set (fst ?s3). gen_ok mt r"
    by (rule fold_records) (rule i3, assumption, rule 2)
  have "fst (generate_sample_data mt to_csv g) = fst ?s3"
    by (simp only: generate_sample_data_def Let_def split_def fst_conv)
  then show ?thesis using 3 by simp
qed

lemma log10_nonneg: "0 \<le> x \<Longrightarrow> 0 \<le> log 10 (x + 1)"
  by simp

lemma log10_105: "1 / 50 \<le> log 10 (105 / 100)"
proof -
  have "(10::real) \<le> (105 / 100) ^ 50" by (simp add: power_divide)
  then have "log 10 10 \<le> log 10 ((105 / 100) ^ 50)" by (subst log_le_cancel_iff) simp_all
  also have "\<dots> = 50 * log 10 (105 / 100)" by (subst log_nat_power) simp_all
  finally show ?thesis by simp
qed

lemma log10_lower: "5 / 100 \<le> x \<Longrightarrow> 1 / 50 \<le> log 10 (x + 1)"
proof -
  assume "5 / 100 \<le> x"
  then have "log 10 (105 / 100) \<le> log 10 (x + 1)" by (subst log_le_cancel_iff) simp_all
  then show ?thesis using log10_105 by linarith
qed

lemma coefficient_ge: "28 \<le> coefficient ty db"
  by (simp add: coefficient_def)

lemma estimator_base_time_noncrud:
  "sc_type sc = ''simple'' \<or> sc_type sc = ''complex'' \<Longrightarrow>
   estimator_base_time mt sc db st = Some (log 10 (base_rows sc + 1) * coefficient (sc_type sc) db, st)"
  by (auto simp add: estimator_base_time_def coefficient_def)

lemma estimator_base_time_crud:
  "sc_type sc \<noteq> ''simple'' \<Longrightarrow> sc_type sc \<noteq> ''complex'' \<Longrightarrow> unit_samples mt \<Longrightarrow>
   estimator_base_time mt sc db st = Some (b, st1) \<Longrightarrow> 4 \<le> b"
  using uniform_bounds(1) [of mt 5 25 st] uniform_bounds(1) [of mt 4 20 st]
    uniform_bounds(1) [of mt 8 30 st]
  by (auto simp add: estimator_base_time_def split: if_splits)

lemma estimator_base_time_bounds:
  assumes "estimator_base_time mt sc db st = Some (b, st1)" and "unit_samples mt"
    and "0 \<le> base_rows sc"
  shows "0 \<le> b" and "5 / 100 \<le> base_rows sc \<Longrightarrow> 56 / 100 \<le> b"
proof -
  show "0 \<le> b"
  proof (cases "sc_type sc = ''simple'' \<or> sc_type sc = ''complex''")
    case True
    then have "b = log 10 (base_rows sc + 1) * coefficient (sc_type sc) db"
      using assms(1) estimator_base_time_noncrud [of sc mt db st] by simp
    moreover have "0 \<le> log 10 (base_rows sc + 1)" using assms(3) by (rule log10_nonneg)
    moreover have "0 \<le> coefficient (sc_type sc) db"
      using coefficient_ge [of "sc_type sc" db] by linarith
    ultimately show ?thesis by simp
  next
    case False
    then have "4 \<le> b" using estimator_base_time_crud [of sc mt db st b st1] assms by simp
    then show ?thesis by simp
  qed
  show "56 / 100 \<le> b" if lb: "5 / 100 \<le> base_rows sc"
  proof (cases "sc_type sc = ''simple'' \<or> sc_type sc = ''complex''")
    case True
    then have b: "b = log 10 (base_rows sc + 1) * coefficient (sc_type sc) db"
      using assms(1) estimator_base_time_noncrud [of sc mt db st] by simp
    have l: "1 / 50 \<le> log 10 (base_rows sc + 1)" using lb by (rule log10_lower)
    have c: "28 \<le> coefficient (sc_type sc) db" by (rule coefficient_ge)
    have "(1 / 50) * 28 \<le> log 10 (base_rows sc + 1) * coefficient (sc_type sc) db"
      using l c by (intro mult_mono) simp_all
    then show ?thesis using b by simp
  next
    case False
    then have "4 \<le> b" using estimator_base_time_crud [of sc mt db st b st1] assms by simp
    then show ?thesis by simp
  qed
qed

lemma estimator_jitter_split_shape:
  "\<exists>t q st'. estimator_jitter_split mt ty db b st = ((t, q, t - q), st') \<and>
     (unit_samples mt \<longrightarrow> 0 \<le> b \<longrightarrow> b * (85 / 100) \<le> t \<and> 0 \<le> q \<and> q \<le> t)"
proof -
  obtain j st1 where j: "np_random_uniform mt (85 / 100) (115 / 100) st = (j, st1)" by force
  define ra :: real where
    "ra = (if ty = ''crud'' then 9 / 10 else if db = ''InfluxDB'' then 55 / 100 else 75 / 100)"
  have eq: "estimator_jitter_split mt ty db b st = ((b * j, b * j * ra, b * j - b * j * ra), st1)"
    by (simp only: estimator_jitter_split_def Let_def prod.case j ra_def)
  have r: "0 \<le> ra" "ra \<le> 1" by (simp_all add: ra_def)
  have "b * (85 / 100) \<le> b * j \<and> 0 \<le> b * j * ra \<and> b * j * ra \<le> b * j"
    if us: "unit_samples mt" and b: "0 \<le> b"
  proof -
    have "85 / 100 \<le> j" using uniform_bounds(1) [OF us, of "85 / 100" "115 / 100" st] j by simp
    then have 1: "b * (85 / 100) \<le> b * j" using b by (intro mult_left_mono) simp_all
    have "0 \<le> b * (85 / 100)" using b by simp
    then have t0: "0 \<le> b * j" using 1 by linarith
    have 2: "0 \<le> b * j * ra" using t0 r(1) by simp
    have 3: "b * j * ra \<le> b * j * 1" using t0 r(2) by (intro mult_left_mono) simp_all
    show ?thesis using 1 2 3 by simp
  qed
  then show ?thesis using eq by blast
qed

lemma py_int_nonneg: "0 \<le> x \<Longrightarrow> 0 \<le> py_int x"
  by (simp add: py_int_def)

lemma estimator_body_step:
  assumes "0 \<le> base_rows sc" and "nonempty \<longrightarrow> 5 / 100 \<le> base_rows sc"
  shows "estimator_body mt sc db s = s \<or>
   (\<exists>r st'. estimator_body mt sc db s = (fst s @ [r], st') \<and> est_ok mt nonempty r)"
proof -
  obtain results st where s: "s = (results, st)" by force
  show ?thesis
  proof (cases "estimator_base_time mt sc db st")
    case None
    then show ?thesis by (simp add: estimator_body_def s)
  next
    case (Some p)
    obtain b st1 where p: "p = (b, st1)" by force
    have bt: "estimator_base_time mt sc db st = Some (b, st1)" using Some p by simp
    obtain t q st2 where js: "estimator_jitter_split mt (sc_type sc) db b st1 = ((t, q, t - q), st2)"
      and jb: "unit_samples mt \<longrightarrow> 0 \<le> b \<longrightarrow> b * (85 / 100) \<le> t \<and> 0 \<le> q \<and> q \<le> t"
      using estimator_jitter_split_shape [of mt "sc_type sc" db b st1] by auto
    let ?r = "\<lparr>query_name = sc_name sc, database = db, execution_time_ms = py_round2 t,
                query_time_ms = py_round2 q, return_time_ms = py_round2 (t - q),
                rows_returned = py_int (base_rows sc), query_type = sc_type sc\<rparr>"
    have eq: "estimator_body mt sc db s = (results @ [?r], st2)"
      by (simp only: estimator_body_def Let_def prod.case s bt js option.case)
    have "0 \<le> t \<and> 0 \<le> q \<and> q \<le> t \<and> 0 \<le> py_int (base_rows sc) \<and> (nonempty \<longrightarrow> 47 / 100 \<le> t)"
      if us: "unit_samples mt"
    proof -
      have b0: "0 \<le> b" using estimator_base_time_bounds(1) [OF bt us assms(1)] .
      have j: "b * (85 / 100) \<le> t" "0 \<le> q" "q \<le> t" using jb us b0 by simp_all
      have "47 / 100 \<le> t" if nonempty
      proof -
        have "56 / 100 \<le> b"
          using estimator_base_time_bounds(2) [OF bt us assms(1)] assms(2) that by simp
        then show ?thesis using j(1) by linarith
      qed
      moreover have "0 \<le> t" using j b0
        by (meson dual_order.trans mult_nonneg_nonneg zero_le_divide_iff zero_le_numeral)
      ultimately show ?thesis using j py_int_nonneg [OF assms(1)] by simp
    qed
    then have "est_ok mt nonempty ?r"
      unfolding est_ok_def split_record_def
      by (intro exI [of _ t] exI [of _ q]) simp
    moreover have "fst s = results" by (simp add: s)
    ultimately show ?thesis using eq by blast
  qed
qed

lemma scenario_rows:
  "sc \<in> set (test_scenarios oc oic) \<Longrightarrow>
     0 \<le> base_rows sc \<and> (0 < oc \<and> 0 < oic \<longrightarrow> 5 / 100 \<le> base_rows sc)"
  by (auto simp add: test_scenarios_def)

lemma estimator_body_ok:
  assumes "0 \<le> base_rows sc" and "nonempty \<longrightarrow> 5 / 100 \<le> base_rows sc"
    and "\<forall>r\<in>set (fst s). est_ok mt nonempty r"
  shows "\<forall>r\<in>set (fst (estimator_body mt sc db s)). est_ok mt nonempty r"
  using assms(3) by (rule appended_ok [OF estimator_body_step [OF assms(1,2)]])

lemma estimate_ok:
  "\<forall>r\<in>set (fst (estimate_results mt oc oic g)). est_ok mt (0 < oc \<and> 0 < oic) r"
proof -
  let ?ne = "0 < oc \<and> 0 < oic"
  have inner: "\<forall>r\<in>set (fst (fold (\<lambda>db. estimator_body mt sc db) databases s)). est_ok mt ?ne r"
    if sc: "sc \<in> set (test_scenarios oc oic)" and s: "\<forall>r\<in>set (fst s). est_ok mt ?ne r" for sc s
  proof -
    have a: "0 \<le> base_rows sc" and b: "?ne \<longrightarrow> 5 / 100 \<le> base_rows sc"
      using scenario_rows [OF sc] by blast+
    show ?thesis
      by (rule fold_records) (rule estimator_body_ok [OF a b], assumption, rule s)
  qed
  have 0: "\<forall>r\<in>set (fst (([], np_random_seed 42 g) :: perf_record list \<times> rng_state)). est_ok mt ?ne r"
    by simp
  show ?thesis
    unfolding estimate_results_def
    by (rule fold_records) (rule inner, assumption, assumption, rule 0)
qed

lemma measure_runs_lengths:
  "measure_runs runs is (ts, rs, n) = Some (ts', rs', n') \<Longrightarrow>
     length ts' = length ts + length is \<and> length rs' = length rs + length is"
proof (induction "is" arbitrary: ts rs n)
  case Nil
  then show ?case by simp
next
  case (Cons i "is")
  then show ?case by (cases "runs i") (auto simp add: Let_def)
qed

lemma benchmark_sql_step:
  "benchmark_sql_query runs db qn qt results = results \<or>
   (\<exists>r. benchmark_sql_query runs db qn qt results = results @ [r] \<and>
        (\<exists>t q. split_record t q r) \<and> 0 \<le> rows_returned r)"
proof (cases "measure_runs runs [0..<3] ([], [], 0)")
  case None
  then show ?thesis by (simp add: benchmark_sql_query_def)
next
  case (Some p)
  obtain ts rs n where p: "p = (ts, rs, n)" by (cases p) auto
  define t where "t = sum_list ts / real (length ts)"
  define a where "a = sum_list rs / real (length rs)"
  let ?r = "\<lparr>query_name = qn, database = db, execution_time_ms = py_round2 t,
              query_time_ms = py_round2 (t - a), return_time_ms = py_round2 a,
              rows_returned = int n, query_type = qt\<rparr>"
  have eq: "benchmark_sql_query runs db qn qt results = results @ [?r]"
    by (simp add: benchmark_sql_query_def Some p Let_def t_def a_def)
  have "split_record t (t - a) ?r" by (simp add: split_record_def)
  then have "(\<exists>t q. split_record t q ?r) \<and> 0 \<le> rows_returned ?r" by auto
  then show ?thesis using eq by blast
qed

lemma benchmark_influx_step:
  "benchmark_influx_query runs query qn qt results = results \<or>
   (\<exists>r. benchmark_influx_query runs query qn qt results = results @ [r] \<and>
        (\<exists>t q. split_record t q r) \<and> 0 \<le> rows_returned r)"
  using benchmark_sql_step [of runs "''InfluxDB''" qn qt results]
  by (simp add: benchmark_influx_query_def)

lemma split_record_gap:
  assumes "split_record t q r"
  shows "timings_add_up r"
proof -
  have f: "execution_time_ms r = dbl (dec2 t)" "query_time_ms r = dbl (dec2 q)"
    "return_time_ms r = dbl (dec2 (t - q))"
    using assms by (simp_all add: split_record_def py_round2_def)
  have d: "\<bar>dec2 q + dec2 (t - q) - dec2 t\<bar> \<le> 1 / 100" by (rule dec2_split)
  have 1: "\<bar>query_time_ms r + return_time_ms r - execution_time_ms r\<bar> \<le> 1 / 100 + representation_slack r"
    unfolding representation_slack_def f by (rule gap_bound(1) [OF d])
  have 2: "timing_gap r \<le> 1 / 100 + representation_slack r"
    unfolding representation_slack_def timing_gap_def f by (rule gap_bound(2) [OF d])
  show ?thesis unfolding timings_add_up_def using 1 2 by (rule conjI)
qed

lemma split_record_order:
  assumes "split_record t q r" and "0 \<le> q" and "q \<le> t"
  shows "0 \<le> return_time_ms r" and "return_time_ms r \<le> execution_time_ms r"
proof -
  have "py_round2 0 \<le> py_round2 (t - q)" using assms(3) by (intro py_round2_mono) simp_all
  then show "0 \<le> return_time_ms r" using assms(1) by (simp add: split_record_def py_round2_0)
  have "py_round2 (t - q) \<le> py_round2 t" using assms(2,3) by (intro py_round2_mono) simp_all
  then show "return_time_ms r \<le> execution_time_ms r" using assms(1) by (simp add: split_record_def)
qed

lemma measure_runs_order:
  assumes "monotone_clock runs"
  shows "measure_runs runs is (ts, rs, n) = Some (ts', rs', n') \<Longrightarrow>
     0 \<le> sum_list rs \<Longrightarrow> sum_list rs \<le> sum_list ts \<Longrightarrow>
     0 \<le> sum_list rs' \<and> sum_list rs' \<le> sum_list ts'"
proof (induction "is" arbitrary: ts rs n)
  case Nil
  then show ?case by simp
next
  case (Cons i "is")
  show ?case
  proof (cases "runs i")
    case Raised
    then show ?thesis using Cons.prems(1) by simp
  next
    case (Timed s qe en k)
    have "case runs i of Timed start_time query_end_time end_time n \<Rightarrow>
             start_time \<le> query_end_time \<and> query_end_time \<le> end_time
           | Raised \<Rightarrow> True"
      using assms unfolding monotone_clock_def by (rule spec)
    then have m: "s \<le> qe \<and> qe \<le> en" by (simp add: Timed)
    have step: "measure_runs runs is
        (ts @ [(en - s) * 1000], rs @ [(en - qe) * 1000], k) = Some (ts', rs', n')"
      using Cons.prems(1) Timed by (simp add: Let_def)
    have a: "0 \<le> sum_list (rs @ [(en - qe) * 1000])" using Cons.prems(2) m by simp
    have b: "sum_list (rs @ [(en - qe) * 1000]) \<le> sum_list (ts @ [(en - s) * 1000])"
      using Cons.prems(3) m by simp
    show ?thesis using Cons.IH [OF step a b] .
  qed
qed

lemma benchmark_sql_record:
  "benchmark_sql_query runs db qn qt results = results \<or>
   (\<exists>t a n. benchmark_sql_query runs db qn qt results =
        results @ [\<lparr>query_name = qn, database = db, execution_time_ms = py_round2 t,
                     query_time_ms = py_round2 (t - a), return_time_ms = py_round2 a,
                     rows_returned = int n, query_type = qt\<rparr>] \<and>
      (monotone_clock runs \<longrightarrow> 0 \<le> a \<and> a \<le> t))"
proof (cases "measure_runs runs [0..<3] ([], [], 0)")
  case None
  then show ?thesis by (simp add: benchmark_sql_query_def)
next
  case (Some p)
  obtain ts rs n where p: "p = (ts, rs, n)" by (cases p) auto
  define t where "t = sum_list ts / real (length ts)"
  define a where "a = sum_list rs / real (length rs)"
  have eq: "benchmark_sql_query runs db qn qt results =
      results @ [\<lparr>query_name = qn, database = db, execution_time_ms = py_round2 t,
                   query_time_ms = py_round2 (t - a), return_time_ms = py_round2 a,
                   rows_returned = int n, query_type = qt\<rparr>]"
    by (simp add: benchmark_sql_query_def Some p Let_def t_def a_def)
  have len: "length ts = 3" "length rs = 3"
    using measure_runs_lengths [of runs "[0..<3]" "[]" "[]" 0 ts rs n] Some p by simp_all
  have "0 \<le> a \<and> a \<le> t" if "monotone_clock runs"
  proof -
    have "0 \<le> sum_list rs \<and> sum_list rs \<le> sum_list ts"
      using measure_runs_order [OF that, of "[0..<3]" "[]" "[]" 0 ts rs n] Some p by simp
    then show ?thesis unfolding t_def a_def len by (simp add: divide_right_mono)
  qed
  then show ?thesis using eq by blast
qed

lemma benchmark_sql_order:
  assumes "monotone_clock runs" and "r \<in> set (benchmark_sql_query runs db qn qt [])"
  shows "0 \<le> return_time_ms r" and "return_time_ms r \<le> execution_time_ms r"
proof -
  obtain t a n where r: "r = \<lparr>query_name = qn, database = db, execution_time_ms = py_round2 t,
                     query_time_ms = py_round2 (t - a), return_time_ms = py_round2 a,
                     rows_returned = int n, query_type = qt\<rparr>"
    and o: "0 \<le> a" "a \<le> t"
    using benchmark_sql_record [of runs db qn qt "[]"] assms by auto
  have "py_round2 0 \<le> py_round2 a" using o(1) by (intro py_round2_mono) simp_all
  then show "0 \<le> return_time_ms r" by (simp add: r py_round2_0)
  have "py_round2 a \<le> py_round2 t" using o by (intro py_round2_mono) simp_all
  then show "return_time_ms r \<le> execution_time_ms r" by (simp add: r)
qed

lemma benchmark_influx_order:
  assumes "monotone_clock runs" and "r \<in> set (benchmark_influx_query runs query qn qt [])"
  shows "0 \<le> return_time_ms r" and "return_time_ms r \<le> execution_time_ms r"
proof -
  have "r \<in> set (benchmark_sql_query runs ''InfluxDB'' qn qt [])"
    using assms(2) by (cases "query = None") (simp_all add: benchmark_influx_query_def)
  then show "0 \<le> return_time_ms r" and "return_time_ms r \<le> execution_time_ms r"
    using benchmark_sql_order [OF assms(1)] by blast+
qed

lemma fold_extends:
  fixes f :: "'x \<Rightarrow> 'a list \<times> 'st \<Rightarrow> 'a list \<times> 'st"
  assumes "\<And>x z. \<exists>ys. fst (f x z) = fst z @ ys"
  shows "\<exists>ys. fst (fold f xs s) = fst s @ ys"
proof (induction xs arbitrary: s)
  case Nil
  show ?case by simp
next
  case (Cons x xs)
  obtain ys where 1: "fst (f x s) = fst s @ ys" using assms by blast
  obtain zs where 2: "fst (fold f xs (f x s)) = fst (f x s) @ zs" using Cons.IH by blast
  show ?case using 1 2 by simp
qed

lemma estimator_body_extends: "\<exists>ys. fst (estimator_body mt sc db z) = fst z @ ys"
  by (cases z) (auto simp add: estimator_body_def split_def Let_def split: option.splits)

lemma estimate_results_head:
  "\<exists>ys. fst (estimate_results mt oc oic g) =
     fst (estimator_body mt (hd (test_scenarios oc oic)) ''PostgreSQL'' ([], np_random_seed 42 g)) @ ys"
proof -
  have inner: "\<exists>ys. fst (fold (\<lambda>db. estimator_body mt sc db) dbs z) = fst z @ ys" for sc dbs z
    by (rule fold_extends) (rule estimator_body_extends)
  obtain sc scs where sc: "test_scenarios oc oic = sc # scs" by (simp add: test_scenarios_def)
  obtain dbs where dbs: "databases = ''PostgreSQL'' # dbs" by (simp add: databases_def)
  let ?z0 = "estimator_body mt sc ''PostgreSQL'' ([], np_random_seed 42 g)"
  obtain ys where 1: "fst (fold (\<lambda>db. estimator_body mt sc db) dbs ?z0) = fst ?z0 @ ys"
    using inner by blast
  obtain zs where 2: "fst (fold (\<lambda>sc. fold (\<lambda>db. estimator_body mt sc db) databases) scs
        (fold (\<lambda>db. estimator_body mt sc db) dbs ?z0)) = fst (fold (\<lambda>db. estimator_body mt sc db) dbs ?z0) @ zs"
    using fold_extends [of "\<lambda>sc. fold (\<lambda>db. estimator_body mt sc db) databases", OF inner] by blast
  have "fst (estimate_results mt oc oic g) = fst ?z0 @ ys @ zs"
    unfolding estimate_results_def sc using 1 2 by (simp add: dbs)
  then show ?thesis by (simp add: sc)
qed

lemma no_files_loaded:
  "load_all_tables (\<lambda>f. False) rd tbls =
     Inr (tbls, [FileMissing OrdersCsv, FileMissing CustomersCsv, FileMissing SellersCsv,
                 FileMissing PaymentsCsv, FileMissing OrderItemsCsv])"
  by (simp add: load_all_tables_def file_mapping_def load_table_def)

lemma results_of_estimator:
  assumes "generate_performance_results mt to_csv ex rd tbls g = Inr res"
  shows "fst res = fst (estimate_results mt (table_len (fst (snd (snd res))) ''orders'')
                          (table_len (fst (snd (snd res))) ''order_items'') g)"
  using assms
  by (auto simp add: generate_performance_results_def Let_def split_def split: sum.splits if_splits)

lemma results_without_files:
  "generate_performance_results mt to_csv (\<lambda>f. False) rd [] g =
     Inr (fst (estimate_results mt 0 0 g), to_csv (fst (estimate_results mt 0 0 g)), [],
          snd (estimate_results mt 0 0 g))"
  by (simp add: generate_performance_results_def no_files_loaded table_len_def split_def Let_def)

section \<open>The records the generator emits\<close>

lemma simple_queries_eq:
  "simple_queries = [''Q1'', ''Q2'', ''Q3'', ''Q4'', ''Q5'', ''Q6'', ''Q7'', ''Q8'']"
  by (simp add: simple_queries_def upt_conv_Cons)

lemma complex_queries_eq: "complex_queries = [''Q1'', ''Q2'', ''Q3'', ''Q4'', ''Q5'']"
  by (simp add: complex_queries_def upt_conv_Cons)

lemma simple_body_keys:
  "map rkey (fst (simple_body mt q db s)) = map rkey (fst s) @ [(''simple'', q, db)]"
  by (simp add: simple_body_def rkey_def split_def Let_def)

lemma complex_body_keys:
  "map rkey (fst (complex_body mt q db s)) = map rkey (fst s) @ [(''complex'', q, db)]"
  by (simp add: complex_body_def rkey_def split_def Let_def)

lemma crud_body_keys:
  "map rkey (fst (crud_body mt operation db s)) =
     map rkey (fst s) @ (if db = ''InfluxDB'' \<and> (operation = ''D1'' \<or> operation = ''U1'') then []
                         else [(''crud'', operation, db)])"
  by (simp add: crud_body_def rkey_def split_def Let_def)

text \<open>A loop whose body appends the keys \<open>ks x\<close> appends them for every element in turn.\<close>

lemma loop_keys:
  assumes "\<And>x s. map rkey (fst (body x s)) = map rkey (fst s) @ ks x"
  shows "map rkey (fst (fold body xs s)) = map rkey (fst s) @ concat (map ks xs)"
  by (induction xs arbitrary: s) (simp_all add: assms)

lemma loop_keys_single:
  assumes "\<And>x s. map rkey (fst (body x s)) = map rkey (fst s) @ [k x]"
  shows "map rkey (fst (fold body xs s)) = map rkey (fst s) @ map k xs"
  by (induction xs arbitrary: s) (simp_all add: assms)

lemma simple_batch_keys:
  "map rkey (fst (fold (\<lambda>query. fold (\<lambda>db. simple_body mt query db) dbs) qs s)) =
     map rkey (fst s) @ [(''simple'', q, db). q \<leftarrow> qs, db \<leftarrow> dbs]"
proof -
  have "\<And>q s. map rkey (fst (fold (\<lambda>db. simple_body mt q db) dbs s)) =
      map rkey (fst s) @ map (\<lambda>db. (''simple'', q, db)) dbs"
    by (rule loop_keys_single) (rule simple_body_keys)
  then show ?thesis by (rule loop_keys)
qed

lemma complex_batch_keys:
  "map rkey (fst (fold (\<lambda>query. fold (\<lambda>db. complex_body mt query db) dbs) qs s)) =
     map rkey (fst s) @ [(''complex'', q, db). q \<leftarrow> qs, db \<leftarrow> dbs]"
proof -
  have "\<And>q s. map rkey (fst (fold (\<lambda>db. complex_body mt q db) dbs s)) =
      map rkey (fst s) @ map (\<lambda>db. (''complex'', q, db)) dbs"
    by (rule loop_keys_single) (rule complex_body_keys)
  then show ?thesis by (rule loop_keys)
qed

lemma crud_batch_keys:
  "map rkey (fst (fold (\<lambda>operation. fold (\<lambda>db. crud_body mt operation db) dbs) ops s)) =
     map rkey (fst s) @
       [(''crud'', operation, db). operation \<leftarrow> ops, db \<leftarrow> dbs,
          \<not> (db = ''InfluxDB'' \<and> (operation = ''D1'' \<or> operation = ''U1''))]"
proof -
  have "\<And>operation s. map rkey (fst (fold (\<lambda>db. crud_body mt operation db) dbs s)) =
      map rkey (fst s) @
        concat (map (\<lambda>db. if \<not> (db = ''InfluxDB'' \<and> (operation = ''D1'' \<or> operation = ''U1''))
                           then [(''crud'', operation, db)] else []) dbs)"
    by (rule loop_keys) (simp add: crud_body_keys)
  then show ?thesis by (rule loop_keys)
qed

lemma generate_keys:
  "map rkey (fst (generate_sample_data mt to_csv g)) =
     [(''simple'', q, db). q \<leftarrow> simple_queries, db \<leftarrow> databases] @
     [(''complex'', q, db). q \<leftarrow> complex_queries, db \<leftarrow> databases] @
     [(''crud'', operation, db). operation \<leftarrow> crud_operations, db \<leftarrow> databases,
        \<not> (db = ''InfluxDB'' \<and> (operation = ''D1'' \<or> operation = ''U1''))]"
  unfolding generate_sample_data_def Let_def split_def fst_conv
  by (simp only: crud_batch_keys complex_batch_keys simple_batch_keys fst_conv list.map
      append_Nil append_assoc)

lemma expected_keys_distinct:
  "distinct ([(''simple'', q, db). q \<leftarrow> simple_queries, db \<leftarrow> databases] @
     [(''complex'', q, db). q \<leftarrow> complex_queries, db \<leftarrow> databases] @
     [(''crud'', operation, db). operation \<leftarrow> crud_operations, db \<leftarrow> databases,
        \<not> (db = ''InfluxDB'' \<and> (operation = ''D1'' \<or> operation = ''U1''))])"
  by (simp add: simple_queries_eq complex_queries_eq crud_operations_def databases_def)

lemma generate_types:
  "map query_type (fst (generate_sample_data mt to_csv g)) =
     replicate 40 ''simple'' @ replicate 25 ''complex'' @ replicate 13 ''crud''"
proof -
  have "map query_type (fst (generate_sample_data mt to_csv g)) =
        map fst (map rkey (fst (generate_sample_data mt to_csv g)))"
    by (simp add: rkey_def comp_def)
  also have "\<dots> = replicate 40 ''simple'' @ replicate 25 ''complex'' @ replicate 13 ''crud''"
    unfolding generate_keys
    by (simp add: simple_queries_eq complex_queries_eq crud_operations_def databases_def
        numeral_eq_Suc)
  finally show ?thesis .
qed

text \<open>
  C5. The generator emits one record for every pair of a query and a database in each
  of the three batches (simple with Q1 to Q8, complex with Q1 to Q5, crud with I1, D1
  and U1, each against the five databases), except D1 and U1 against InfluxDB: the keys
  of the emitted records are exactly these pairs, in loop order, and no key occurs twice.
\<close>

theorem generator_one_record_per_pair:
  "simple_queries = [''Q1'', ''Q2'', ''Q3'', ''Q4'', ''Q5'', ''Q6'', ''Q7'', ''Q8''] \<and>
   complex_queries = [''Q1'', ''Q2'', ''Q3'', ''Q4'', ''Q5''] \<and>
   crud_operations = [''I1'', ''D1'', ''U1''] \<and>
   databases = [''PostgreSQL'', ''PostgreSQL_indexed'', ''DuckDB'', ''DuckDB_indexed'', ''InfluxDB''] \<and>
   map rkey (fst (generate_sample_data mt to_csv g)) =
     [(''simple'', q, db). q \<leftarrow> simple_queries, db \<leftarrow> databases] @
     [(''complex'', q, db). q \<leftarrow> complex_queries, db \<leftarrow> databases] @
     [(''crud'', operation, db). operation \<leftarrow> crud_operations, db \<leftarrow> databases,
        \<not> (db = ''InfluxDB'' \<and> (operation = ''D1'' \<or> operation = ''U1''))] \<and>
   distinct (map rkey (fst (generate_sample_data mt to_csv g)))"
proof -
  have "distinct (map rkey (fst (generate_sample_data mt to_csv g)))"
    unfolding generate_keys by (rule expected_keys_distinct)
  then show ?thesis
    using generate_keys [of mt to_csv g] simple_queries_eq complex_queries_eq
    by (simp only: crud_operations_def databases_def simp_thms)
qed

text \<open>
  C10. The generator always emits 78 records, in batch order: 40 simple records, then
  25 complex records, then 13 crud records.
\<close>

theorem generator_emits_78_records:
  "length (fst (generate_sample_data mt to_csv g)) = 78 \<and>
   map query_type (fst (generate_sample_data mt to_csv g)) =
     replicate 40 ''simple'' @ replicate 25 ''complex'' @ replicate 13 ''crud''"
proof -
  have "length (fst (generate_sample_data mt to_csv g)) =
        length (map query_type (fst (generate_sample_data mt to_csv g)))"
    by simp
  also have "\<dots> = 78"
    unfolding generate_types by simp
  finally show ?thesis using generate_types [of mt to_csv g] by blast
qed

text \<open>
  C4. The generator seeds the random source with 42 before the first draw, so two runs
  produce the same record list and write the same file content, whatever state the
  process-wide random source was in before each run.
\<close>

theorem generator_deterministic:
  "fst (generate_sample_data mt to_csv g1) = fst (generate_sample_data mt to_csv g2) \<and>
   fst (snd (generate_sample_data mt to_csv g1)) = fst (snd (generate_sample_data mt to_csv g2))"
  by (simp add: generate_sample_data_def np_random_seed_def)

section \<open>Facts about the records of each producer\<close>

lemma generate_nonempty: "fst (generate_sample_data mt to_csv g) \<noteq> []"
proof
  assume "fst (generate_sample_data mt to_csv g) = []"
  then have "map query_type (fst (generate_sample_data mt to_csv g)) = []" by simp
  then show False unfolding generate_types by simp
qed

lemma estimate_nonempty: "fst (estimate_results mt oc oic g) \<noteq> []"
proof -
  obtain ys where "fst (estimate_results mt oc oic g) =
     fst (estimator_body mt (hd (test_scenarios oc oic)) ''PostgreSQL'' ([], np_random_seed 42 g)) @ ys"
    using estimate_results_head by blast
  moreover have "fst (estimator_body mt (hd (test_scenarios oc oic)) ''PostgreSQL''
      ([], np_random_seed 42 g)) \<noteq> []"
    by (simp add: estimator_body_def test_scenarios_def estimator_base_time_def split_def Let_def)
  ultimately show ?thesis by simp
qed

lemma results_with_tables:
  "tbls \<noteq> [] \<Longrightarrow> generate_performance_results mt to_csv ex rd tbls g =
     Inr (fst (estimate_results mt (table_len tbls ''orders'') (table_len tbls ''order_items'') g),
          to_csv (fst (estimate_results mt (table_len tbls ''orders'') (table_len tbls ''order_items'') g)),
          tbls,
          snd (estimate_results mt (table_len tbls ''orders'') (table_len tbls ''order_items'') g))"
  by (simp add: generate_performance_results_def split_def Let_def)

lemma py_round2_100: "py_round2 100 = 100"
  by (simp add: py_round2_def dec2_def py_round_def dbl_100)

lemma ratio_in_range:
  assumes "0 \<le> return_time_ms r" and "return_time_ms r \<le> execution_time_ms r"
    and "0 < execution_time_ms r"
  shows "in_percent_range (return_ratio r)" and "in_percent_range (load_data_return_ratio r)"
proof -
  let ?d = "dbl (return_time_ms r / execution_time_ms r)"
  let ?x = "dbl (?d * 100)"
  have r: "return_ratio r = Num ?x"
    using assms(3) by (simp add: return_ratio_def pd_div_def)
  have q0: "0 \<le> return_time_ms r / execution_time_ms r" using assms(1,3) by simp
  have q1: "return_time_ms r / execution_time_ms r \<le> 1" using assms(2,3) by simp
  have "dbl 0 \<le> ?d" using q0 by (intro dbl_mono) simp_all
  then have d0: "0 \<le> ?d" by (simp only: dbl_0)
  have "?d \<le> dbl 1" using q0 q1 by (intro dbl_mono)
  then have d1: "?d \<le> 1" by (simp only: dbl_1)
  have m0: "0 \<le> ?d * 100" using d0 by simp
  have "?d * 100 \<le> 1 * 100" using d1 by (intro mult_right_mono) simp_all
  then have m1: "?d * 100 \<le> 100" by (simp only: mult_1)
  have "dbl 0 \<le> ?x" using m0 by (intro dbl_mono) simp_all
  then have 0: "0 \<le> ?x" by (simp only: dbl_0)
  have "?x \<le> dbl 100" using m0 m1 by (intro dbl_mono)
  then have 1: "?x \<le> 100" by (simp only: dbl_100)
  show "in_percent_range (return_ratio r)" using r 0 1 by (simp add: in_percent_range_def)
  have "py_round2 0 \<le> py_round2 ?x" using 0 by (intro py_round2_mono) simp_all
  moreover have "py_round2 ?x \<le> py_round2 100" using 0 1 by (intro py_round2_mono)
  ultimately show "in_percent_range (load_data_return_ratio r)"
    using r by (simp add: load_data_return_ratio_def in_percent_range_def py_round2_0 py_round2_100)
qed

lemma ratio_nan:
  assumes "0 \<le> return_time_ms r" and "return_time_ms r \<le> execution_time_ms r"
    and "execution_time_ms r = 0"
  shows "return_ratio r = NaN" and "load_data_return_ratio r = NaN"
proof -
  have "return_time_ms r = 0" using assms by linarith
  then show "return_ratio r = NaN" using assms(3) by (simp add: return_ratio_def pd_div_def)
  then show "load_data_return_ratio r = NaN" by (simp add: load_data_return_ratio_def)
qed

lemma gen_ok_facts:
  assumes "gen_ok mt r" and "unit_samples mt"
  shows "0 < execution_time_ms r" and "1 \<le> rows_returned r"
    and "0 \<le> return_time_ms r" and "return_time_ms r \<le> execution_time_ms r"
proof -
  obtain t q where s: "split_record t q r" and b: "72 / 10 \<le> t" "0 \<le> q" "q \<le> t"
    and rw: "1 \<le> rows_returned r"
    using assms unfolding gen_ok_def by blast
  have "1 / 100 \<le> t" using b(1) by linarith
  then have "0 < py_round2 t" by (rule py_round2_pos)
  then show "0 < execution_time_ms r" using s by (simp add: split_record_def)
  show "1 \<le> rows_returned r" by (rule rw)
  show "0 \<le> return_time_ms r" using split_record_order(1) [OF s b(2,3)] .
  show "return_time_ms r \<le> execution_time_ms r" using split_record_order(2) [OF s b(2,3)] .
qed

lemma est_ok_facts:
  assumes "est_ok mt ne r" and "unit_samples mt"
  shows "0 \<le> execution_time_ms r" and "0 \<le> rows_returned r"
    and "0 \<le> return_time_ms r" and "return_time_ms r \<le> execution_time_ms r"
    and "ne \<Longrightarrow> 0 < execution_time_ms r"
proof -
  obtain t q where s: "split_record t q r" and b: "0 \<le> t" "0 \<le> q" "q \<le> t"
    and rw: "0 \<le> rows_returned r" and ne: "ne \<longrightarrow> 47 / 100 \<le> t"
    using assms unfolding est_ok_def by blast
  have "py_round2 0 \<le> py_round2 t" using b(1) by (intro py_round2_mono) simp_all
  then show "0 \<le> execution_time_ms r" using s by (simp add: split_record_def py_round2_0)
  show "0 \<le> rows_returned r" by (rule rw)
  show "0 \<le> return_time_ms r" using split_record_order(1) [OF s b(2,3)] .
  show "return_time_ms r \<le> execution_time_ms r" using split_record_order(2) [OF s b(2,3)] .
  show "0 < execution_time_ms r" if ne
  proof -
    have "1 / 100 \<le> t" using ne that by linarith
    then have "0 < py_round2 t" by (rule py_round2_pos)
    then show ?thesis using s by (simp add: split_record_def)
  qed
qed

lemma estimator_records_ok:
  assumes "generate_performance_results mt to_csv ex rd tbls g = Inr res" and "r \<in> set (fst res)"
  shows "est_ok mt (0 < table_len (fst (snd (snd res))) ''orders'' \<and>
                    0 < table_len (fst (snd (snd res))) ''order_items'') r"
  using results_of_estimator [OF assms(1)] estimate_ok assms(2) by metis

lemma degenerate_head:
  "hd (fst (estimate_results half_sampler 0 0 g)) =
     \<lparr>query_name = ''Q1'', database = ''PostgreSQL'', execution_time_ms = 0, query_time_ms = 0,
      return_time_ms = 0, rows_returned = 0, query_type = ''simple''\<rparr>"
proof -
  obtain ys where "fst (estimate_results half_sampler 0 0 g) =
     fst (estimator_body half_sampler (hd (test_scenarios 0 0)) ''PostgreSQL'' ([], np_random_seed 42 g)) @ ys"
    using estimate_results_head by blast
  moreover have "fst (estimator_body half_sampler (hd (test_scenarios 0 0)) ''PostgreSQL''
      ([], np_random_seed 42 g)) =
      [\<lparr>query_name = ''Q1'', database = ''PostgreSQL'', execution_time_ms = 0, query_time_ms = 0,
      return_time_ms = 0, rows_returned = 0, query_type = ''simple''\<rparr>]"
    by (simp add: estimator_body_def test_scenarios_def estimator_base_time_def
        estimator_jitter_split_def np_random_uniform_def split_def Let_def py_round2_0 py_int_def)
  ultimately show ?thesis by simp
qed

lemma dbl_2: "dbl (2) = 2"
proof -
  have "dbl (2) =
      of_int (py_round ((2) * 2 powr (52 - of_int (1)))) * 2 powr (of_int (1) - 52)"
    by (rule dbl_at) (simp_all add: powr_neg_numeral powr_minus)
  also have "py_round ((2) * 2 powr (52 - of_int (1))) = 4503599627370496"
    by (simp add: py_round_def Let_def)
  finally show ?thesis by (simp add: powr_neg_numeral)
qed

lemma dbl_minus_1: "dbl (- 1) = - 1"
proof -
  have "dbl (- 1) =
      of_int (py_round ((- 1) * 2 powr (52 - of_int (0)))) * 2 powr (of_int (0) - 52)"
    by (rule dbl_at) (simp_all add: powr_neg_numeral powr_minus)
  also have "py_round ((- 1) * 2 powr (52 - of_int (0))) = - 4503599627370496"
    by (simp add: py_round_def Let_def)
  finally show ?thesis by (simp add: powr_neg_numeral)
qed

lemma dbl_minus_100: "dbl (- 100) = - 100"
proof -
  have "dbl (- 100) =
      of_int (py_round ((- 100) * 2 powr (52 - of_int (6)))) * 2 powr (of_int (6) - 52)"
    by (rule dbl_at) (simp_all add: powr_neg_numeral powr_minus)
  also have "py_round ((- 100) * 2 powr (52 - of_int (6))) = - 7036874417766400"
    by (simp add: py_round_def Let_def)
  finally show ?thesis by (simp add: powr_neg_numeral)
qed

lemma dbl_hundredth: "dbl (1 / 100) = 5764607523034235 / 2 ^ 59"
proof -
  have "dbl (1 / 100) =
      of_int (py_round ((1 / 100) * 2 powr (52 - of_int (- 7)))) * 2 powr (of_int (- 7) - 52)"
    by (rule dbl_at) (simp_all add: powr_neg_numeral powr_minus)
  also have "py_round ((1 / 100) * 2 powr (52 - of_int (- 7))) = 5764607523034235"
    by (simp add: py_round_def Let_def)
  finally show ?thesis by (simp add: powr_neg_numeral)
qed

lemma dbl_stored_sum: "dbl (4593671619917906 / 2 ^ 53 + 1 / 2) = 4548635623644201 / 2 ^ 52"
proof -
  have "dbl (4593671619917906 / 2 ^ 53 + 1 / 2) =
      of_int (py_round ((4593671619917906 / 2 ^ 53 + 1 / 2) * 2 powr (52 - of_int (0)))) * 2 powr (of_int (0) - 52)"
    by (rule dbl_at) (simp_all add: powr_neg_numeral powr_minus)
  also have "py_round ((4593671619917906 / 2 ^ 53 + 1 / 2) * 2 powr (52 - of_int (0))) = 4548635623644201"
    by (simp add: py_round_def Let_def)
  finally show ?thesis by (simp add: powr_neg_numeral)
qed

lemma dbl_stored_diff: "dbl (4548635623644201 / 2 ^ 52 - 1) = 45035996273705 / 2 ^ 52"
proof -
  have "dbl (4548635623644201 / 2 ^ 52 - 1) =
      of_int (py_round ((4548635623644201 / 2 ^ 52 - 1) * 2 powr (52 - of_int (- 7)))) * 2 powr (of_int (- 7) - 52)"
    by (rule dbl_at) (simp_all add: powr_neg_numeral powr_minus)
  also have "py_round ((4548635623644201 / 2 ^ 52 - 1) * 2 powr (52 - of_int (- 7))) = 5764607523034240"
    by (simp add: py_round_def Let_def)
  finally show ?thesis by (simp add: powr_neg_numeral)
qed

lemma boundary_record:
  "benchmark_sql_query boundary_runs db ''Q1'' ''simple'' [] =
     [\<lparr>query_name = ''Q1'', database = db, execution_time_ms = 1,
       query_time_ms = 4593671619917906 / 2 ^ 53, return_time_ms = 1 / 2, rows_returned = 5,
       query_type = ''simple''\<rparr>]"
proof -
  have 1: "benchmark_sql_query boundary_runs db ''Q1'' ''simple'' [] =
     [\<lparr>query_name = ''Q1'', database = db, execution_time_ms = py_round2 (1002 / 1000),
       query_time_ms = py_round2 (506 / 1000), return_time_ms = py_round2 (496 / 1000),
       rows_returned = 5, query_type = ''simple''\<rparr>]"
    by (simp add: benchmark_sql_query_def boundary_runs_def upt_conv_Cons Let_def)
  have e: "py_round2 (1002 / 1000) = 1"
    by (simp add: py_round2_def dec2_def py_round_def dbl_1)
  have "dec2 (506 / 1000) = 51 / 100" by (simp add: dec2_def py_round_def)
  then have q: "py_round2 (506 / 1000) = 4593671619917906 / 2 ^ 53"
    by (simp only: py_round2_def dbl_51)
  have "dec2 (496 / 1000) = 1 / 2" by (simp add: dec2_def py_round_def)
  then have r: "py_round2 (496 / 1000) = 1 / 2"
    by (simp only: py_round2_def dbl_half)
  show ?thesis unfolding 1 e q r by (rule refl)
qed

lemma tick_record:
  "benchmark_sql_query tick_runs ''DuckDB'' ''Q1'' ''simple'' [] =
     [\<lparr>query_name = ''Q1'', database = ''DuckDB'', execution_time_ms = 0,
       query_time_ms = 0, return_time_ms = 0, rows_returned = 5, query_type = ''simple''\<rparr>]"
  by (simp add: benchmark_sql_query_def tick_runs_def upt_conv_Cons Let_def py_round2_0)

lemma stepback_record:
  "benchmark_sql_query stepback_runs ''DuckDB'' ''Q1'' ''simple'' [] =
     [\<lparr>query_name = ''Q1'', database = ''DuckDB'', execution_time_ms = 1,
       query_time_ms = 2, return_time_ms = - 1, rows_returned = 5, query_type = ''simple''\<rparr>]"
proof -
  have 1: "benchmark_sql_query stepback_runs ''DuckDB'' ''Q1'' ''simple'' [] =
     [\<lparr>query_name = ''Q1'', database = ''DuckDB'', execution_time_ms = py_round2 1,
       query_time_ms = py_round2 2, return_time_ms = py_round2 (- 1),
       rows_returned = 5, query_type = ''simple''\<rparr>]"
    by (simp add: benchmark_sql_query_def stepback_runs_def upt_conv_Cons Let_def)
  have e: "py_round2 1 = 1" by (simp add: py_round2_def dec2_def py_round_def dbl_1)
  have q: "py_round2 2 = 2" by (simp add: py_round2_def dec2_def py_round_def dbl_2)
  have r: "py_round2 (- 1) = - 1" by (simp add: py_round2_def dec2_def py_round_def dbl_minus_1)
  show ?thesis unfolding 1 e q r by (rule refl)
qed

lemma monotone_boundary_runs: "monotone_clock boundary_runs"
  by (simp add: monotone_clock_def boundary_runs_def)

lemma monotone_tick_runs: "monotone_clock tick_runs"
  by (simp add: monotone_clock_def tick_runs_def)

lemma zero_rows_zero_time:
  assumes "sc_type sc = ''simple'' \<or> sc_type sc = ''complex''" and "base_rows sc = 0"
  shows "\<forall>r\<in>set (fst (estimator_body mt sc db ([], st))). execution_time_ms r = 0"
  using assms
  by (simp add: estimator_body_def estimator_base_time_noncrud estimator_jitter_split_def
      split_def Let_def py_round2_0)

lemma unit_zero_sampler: "unit_samples zero_sampler"
  by (simp add: unit_samples_def zero_sampler_def)

lemma unit_half_sampler: "unit_samples half_sampler"
  by (simp add: unit_samples_def half_sampler_def)

lemma degenerate_run:
  "generate_performance_results half_sampler id no_file unreadable [] fresh_rng =
     Inr (fst (estimate_results half_sampler 0 0 fresh_rng),
          fst (estimate_results half_sampler 0 0 fresh_rng), [],
          snd (estimate_results half_sampler 0 0 fresh_rng))"
  using results_without_files [of half_sampler id unreadable fresh_rng]
  by (simp add: no_file_def [abs_def])

lemma loaded_run:
  "generate_performance_results half_sampler id no_file unreadable loaded_tables fresh_rng =
     Inr (fst (estimate_results half_sampler 10000 20000 fresh_rng),
          fst (estimate_results half_sampler 10000 20000 fresh_rng), loaded_tables,
          snd (estimate_results half_sampler 10000 20000 fresh_rng))"
proof -
  have tl: "table_len loaded_tables ''orders'' = 10000" "table_len loaded_tables ''order_items'' = 20000"
    by (simp_all add: table_len_def loaded_tables_def)
  have "loaded_tables \<noteq> []" by (simp add: loaded_tables_def)
  then show ?thesis
    using results_with_tables [of loaded_tables half_sampler id no_file unreadable fresh_rng]
    by (simp add: tl)
qed

lemma loaded_head_positive:
  "0 < execution_time_ms (hd (fst (estimate_results half_sampler 10000 20000 fresh_rng)))"
proof -
  let ?r = "hd (fst (estimate_results half_sampler 10000 20000 fresh_rng))"
  have "?r \<in> set (fst (estimate_results half_sampler 10000 20000 fresh_rng))"
    using estimate_nonempty by (rule hd_in_set)
  then have "est_ok half_sampler (0 < (10000::nat) \<and> 0 < (20000::nat)) ?r"
    using estimate_ok by blast
  then show ?thesis
    by (rule est_ok_facts(5) [OF _ unit_half_sampler]) simp
qed

section \<open>The timing fields\<close>

text \<open>
  C1, as amended. For every record of the generator, of the estimator and of the
  benchmark runner, the sum of the stored query time and return time differs from the
  stored execution time by at most one hundredth plus the representation error of the
  three doubles, which is at most the sum of their magnitudes divided by \<open>2 ^ 50\<close>; this
  holds of the exact difference and of the difference as Python evaluates it. The bound
  does not rest on the subtraction before rounding being exact: it holds of any three
  values rounded on their own whose sum and total differ by less than half a hundredth.
  (Each of the three is rounded on its own, so the difference is not always strictly
  below one hundredth.)
\<close>

theorem timing_split_within_one_hundredth:
  "(\<forall>r\<in>set (fst (generate_sample_data mt to_csv g)). timings_add_up r) \<and>
   (\<forall>res. generate_performance_results mt to_csv ex read_csv tbls g = Inr res \<longrightarrow>
      (\<forall>r\<in>set (fst res). timings_add_up r)) \<and>
   (\<forall>r\<in>set (benchmark_sql_query runs db_name qname qtype []). timings_add_up r) \<and>
   (\<forall>r\<in>set (benchmark_influx_query runs query qname qtype []). timings_add_up r) \<and>
   (\<forall>t q a. \<bar>q + a - t\<bar> < 1 / 200 \<longrightarrow>
      \<bar>py_round2 q + py_round2 a - py_round2 t\<bar> \<le>
        1 / 100 + (\<bar>py_round2 q\<bar> + \<bar>py_round2 a\<bar> + \<bar>py_round2 t\<bar>) / 2 ^ 50)"
proof (intro conjI allI impI ballI)
  fix r
  assume "r \<in> set (fst (generate_sample_data mt to_csv g))"
  then have "gen_ok mt r" using generate_ok by blast
  then obtain t q where "split_record t q r" unfolding gen_ok_def by blast
  then show "timings_add_up r" by (rule split_record_gap)
next
  fix res r
  assume "generate_performance_results mt to_csv ex read_csv tbls g = Inr res"
    and "r \<in> set (fst res)"
  then obtain ne where "est_ok mt ne r" using estimator_records_ok by blast
  then obtain t q where "split_record t q r" unfolding est_ok_def by blast
  then show "timings_add_up r" by (rule split_record_gap)
next
  fix r
  assume "r \<in> set (benchmark_sql_query runs db_name qname qtype [])"
  then obtain t q where "split_record t q r"
    using benchmark_sql_step [of runs db_name qname qtype "[]"] by auto
  then show "timings_add_up r" by (rule split_record_gap)
next
  fix r
  assume "r \<in> set (benchmark_influx_query runs query qname qtype [])"
  then obtain t q where "split_record t q r"
    using benchmark_influx_step [of runs query qname qtype "[]"] by auto
  then show "timings_add_up r" by (rule split_record_gap)
next
  fix t q a :: real
  assume "\<bar>q + a - t\<bar> < 1 / 200"
  then show "\<bar>py_round2 q + py_round2 a - py_round2 t\<bar> \<le>
        1 / 100 + (\<bar>py_round2 q\<bar> + \<bar>py_round2 a\<bar> + \<bar>py_round2 t\<bar>) / 2 ^ 50"
    by (rule py_round2_split_near)
qed

text \<open>
  The theorem at concrete inputs: the first record of a generator run, of an estimator
  run without tables, the record of a benchmark run, and the three means of that run
  rounded on their own.
\<close>

theorem timing_split_within_one_hundredth_witness:
  "timings_add_up (hd (fst (generate_sample_data half_sampler id fresh_rng))) \<and>
   generate_performance_results half_sampler id no_file unreadable [] fresh_rng =
     Inr (fst (estimate_results half_sampler 0 0 fresh_rng),
          fst (estimate_results half_sampler 0 0 fresh_rng), [],
          snd (estimate_results half_sampler 0 0 fresh_rng)) \<and>
   timings_add_up (hd (fst (estimate_results half_sampler 0 0 fresh_rng))) \<and>
   timings_add_up (hd (benchmark_sql_query boundary_runs ''DuckDB'' ''Q1'' ''simple'' [])) \<and>
   timings_add_up (hd (benchmark_influx_query boundary_runs (Some ''flux'') ''Q1'' ''simple'' [])) \<and>
   \<bar>506 / 1000 + 496 / 1000 - 1002 / (1000::real)\<bar> < 1 / 200 \<and>
   \<bar>py_round2 (506 / 1000) + py_round2 (496 / 1000) - py_round2 (1002 / 1000)\<bar> \<le>
     1 / 100 + (\<bar>py_round2 (506 / 1000)\<bar> + \<bar>py_round2 (496 / 1000)\<bar> + \<bar>py_round2 (1002 / 1000)\<bar>) / 2 ^ 50"
proof -
  note T = timing_split_within_one_hundredth [of half_sampler id fresh_rng no_file unreadable "[]"
      boundary_runs "''DuckDB''" "''Q1''" "''simple''" "Some ''flux''"]
  have gpr: "generate_performance_results half_sampler id no_file unreadable [] fresh_rng =
     Inr (fst (estimate_results half_sampler 0 0 fresh_rng),
          fst (estimate_results half_sampler 0 0 fresh_rng), [],
          snd (estimate_results half_sampler 0 0 fresh_rng))"
    using results_without_files [of half_sampler id unreadable fresh_rng]
    by (simp add: no_file_def [abs_def])
  have 1: "hd (fst (generate_sample_data half_sampler id fresh_rng))
      \<in> set (fst (generate_sample_data half_sampler id fresh_rng))"
    using generate_nonempty by (rule hd_in_set)
  have 2: "hd (fst (estimate_results half_sampler 0 0 fresh_rng))
      \<in> set (fst (estimate_results half_sampler 0 0 fresh_rng))"
    using estimate_nonempty by (rule hd_in_set)
  have 3: "hd (benchmark_sql_query boundary_runs ''DuckDB'' ''Q1'' ''simple'' [])
      \<in> set (benchmark_sql_query boundary_runs ''DuckDB'' ''Q1'' ''simple'' [])"
    by (rule hd_in_set) (simp add: boundary_record)
  have 4: "hd (benchmark_influx_query boundary_runs (Some ''flux'') ''Q1'' ''simple'' [])
      \<in> set (benchmark_influx_query boundary_runs (Some ''flux'') ''Q1'' ''simple'' [])"
    by (rule hd_in_set) (simp add: benchmark_influx_query_def boundary_record)
  have 5: "\<bar>506 / 1000 + 496 / 1000 - 1002 / (1000::real)\<bar> < 1 / 200" by simp
  have a: "timings_add_up (hd (fst (generate_sample_data half_sampler id fresh_rng)))"
    using T [THEN conjunct1] 1 by (rule bspec)
  have b: "timings_add_up (hd (fst (estimate_results half_sampler 0 0 fresh_rng)))"
    using T [THEN conjunct2, THEN conjunct1, rule_format, OF gpr] 2 by simp
  have c: "timings_add_up (hd (benchmark_sql_query boundary_runs ''DuckDB'' ''Q1'' ''simple'' []))"
    using T [THEN conjunct2, THEN conjunct2, THEN conjunct1] 3 by (rule bspec)
  have d: "timings_add_up (hd (benchmark_influx_query boundary_runs (Some ''flux'') ''Q1'' ''simple'' []))"
    using T [THEN conjunct2, THEN conjunct2, THEN conjunct2, THEN conjunct1] 4 by (rule bspec)
  note e = T [THEN conjunct2, THEN conjunct2, THEN conjunct2, THEN conjunct2, rule_format, OF 5]
  show ?thesis by (intro conjI) (fact a gpr b c d 5 e)+
qed

text \<open>
  The bound of one hundredth is exceeded. Three runs of 1.002 ms with 0.496 ms of
  fetching are stored by the benchmark runner as the doubles nearest to 1.00, 0.51 and
  0.50. The double nearest to 0.51 lies above 0.51, so the sum of the stored query time
  and return time exceeds the stored execution time by \<open>45035996273705 / 2 ^ 52\<close>, a
  little more than one hundredth; Python computes that same double for the difference,
  and it is above the double that Python reads \<^verbatim>\<open>0.01\<close> as. So the difference is neither
  strictly below one hundredth nor at most one hundredth.
\<close>

theorem timing_split_counterexample:
  "benchmark_sql_query boundary_runs ''DuckDB'' ''Q1'' ''simple'' [] =
     [\<lparr>query_name = ''Q1'', database = ''DuckDB'', execution_time_ms = 1,
       query_time_ms = 4593671619917906 / 2 ^ 53, return_time_ms = 1 / 2, rows_returned = 5,
       query_type = ''simple''\<rparr>] \<and>
   \<bar>query_time_ms (hd (benchmark_sql_query boundary_runs ''DuckDB'' ''Q1'' ''simple'' [])) +
     return_time_ms (hd (benchmark_sql_query boundary_runs ''DuckDB'' ''Q1'' ''simple'' [])) -
     execution_time_ms (hd (benchmark_sql_query boundary_runs ''DuckDB'' ''Q1'' ''simple'' []))\<bar> =
     45035996273705 / 2 ^ 52 \<and>
   timing_gap (hd (benchmark_sql_query boundary_runs ''DuckDB'' ''Q1'' ''simple'' [])) =
     45035996273705 / 2 ^ 52 \<and>
   dbl (1 / 100) = 5764607523034235 / 2 ^ 59 \<and>
   \<not> \<bar>query_time_ms (hd (benchmark_sql_query boundary_runs ''DuckDB'' ''Q1'' ''simple'' [])) +
      return_time_ms (hd (benchmark_sql_query boundary_runs ''DuckDB'' ''Q1'' ''simple'' [])) -
      execution_time_ms (hd (benchmark_sql_query boundary_runs ''DuckDB'' ''Q1'' ''simple'' []))\<bar>
      < 1 / 100 \<and>
   \<not> \<bar>query_time_ms (hd (benchmark_sql_query boundary_runs ''DuckDB'' ''Q1'' ''simple'' [])) +
      return_time_ms (hd (benchmark_sql_query boundary_runs ''DuckDB'' ''Q1'' ''simple'' [])) -
      execution_time_ms (hd (benchmark_sql_query boundary_runs ''DuckDB'' ''Q1'' ''simple'' []))\<bar>
      \<le> 1 / 100 \<and>
   \<not> timing_gap (hd (benchmark_sql_query boundary_runs ''DuckDB'' ''Q1'' ''simple'' []))
      < dbl (1 / 100) \<and>
   \<not> timing_gap (hd (benchmark_sql_query boundary_runs ''DuckDB'' ''Q1'' ''simple'' []))
      \<le> dbl (1 / 100)"
proof -
  let ?r = "hd (benchmark_sql_query boundary_runs ''DuckDB'' ''Q1'' ''simple'' [])"
  have f: "execution_time_ms ?r = 1" "query_time_ms ?r = 4593671619917906 / 2 ^ 53"
    "return_time_ms ?r = 1 / 2"
    by (simp_all add: boundary_record)
  have x: "\<bar>query_time_ms ?r + return_time_ms ?r - execution_time_ms ?r\<bar> = 45035996273705 / 2 ^ 52"
    unfolding f by simp
  have g: "timing_gap ?r = 45035996273705 / 2 ^ 52"
    unfolding timing_gap_def f dbl_stored_sum dbl_stored_diff by simp
  have n: "\<not> (45035996273705 / 2 ^ 52 < (1 / 100 :: real))"
    "\<not> (45035996273705 / 2 ^ 52 \<le> (1 / 100 :: real))"
    "\<not> (45035996273705 / 2 ^ 52 < (5764607523034235 / 2 ^ 59 :: real))"
    "\<not> (45035996273705 / 2 ^ 52 \<le> (5764607523034235 / 2 ^ 59 :: real))"
    by simp_all
  show ?thesis unfolding x g dbl_hundredth using n boundary_record by simp
qed

text \<open>
  C2, as amended. With a random source that returns values of the unit interval, every
  record of the generator has a positive execution time and a non-negative row count;
  every record of the estimator has a non-negative execution time and a non-negative
  row count, and a positive execution time when the orders table and the order-items
  table were both loaded with at least one row. A simple or complex scenario whose
  result-size estimate is zero, as it is for the scenarios scaled by the row count of
  a table that did not load, gets the execution time zero on every database.
\<close>

theorem execution_time_and_rows:
  assumes "unit_samples mt"
  shows "(\<forall>r\<in>set (fst (generate_sample_data mt to_csv g)).
            0 < execution_time_ms r \<and> 0 \<le> rows_returned r) \<and>
         (\<forall>res. generate_performance_results mt to_csv ex read_csv tbls g = Inr res \<longrightarrow>
            (\<forall>r\<in>set (fst res).
               0 \<le> execution_time_ms r \<and> 0 \<le> rows_returned r \<and>
               (0 < table_len (fst (snd (snd res))) ''orders'' \<and>
                0 < table_len (fst (snd (snd res))) ''order_items'' \<longrightarrow>
                  0 < execution_time_ms r))) \<and>
         (\<forall>sc db st. (sc_type sc = ''simple'' \<or> sc_type sc = ''complex'') \<and> base_rows sc = 0 \<longrightarrow>
            (\<forall>r\<in>set (fst (estimator_body mt sc db ([], st))). execution_time_ms r = 0))"
proof (intro conjI allI impI ballI)
  fix r
  assume "r \<in> set (fst (generate_sample_data mt to_csv g))"
  then have ok: "gen_ok mt r" using generate_ok by blast
  show "0 < execution_time_ms r" using gen_ok_facts(1) [OF ok assms] by linarith
  show "0 \<le> rows_returned r" using gen_ok_facts(2) [OF ok assms] by linarith
next
  fix res r
  assume gpr: "generate_performance_results mt to_csv ex read_csv tbls g = Inr res"
    and r: "r \<in> set (fst res)"
  let ?ne = "0 < table_len (fst (snd (snd res))) ''orders'' \<and>
             0 < table_len (fst (snd (snd res))) ''order_items''"
  have ok: "est_ok mt ?ne r" using gpr r by (rule estimator_records_ok)
  show "0 \<le> execution_time_ms r" using est_ok_facts(1) [OF ok assms] .
  show "0 \<le> rows_returned r" using est_ok_facts(2) [OF ok assms] .
  show "0 < execution_time_ms r" if ?ne
    using est_ok_facts(5) [OF ok assms that] by linarith
next
  fix sc db st r
  assume "(sc_type sc = ''simple'' \<or> sc_type sc = ''complex'') \<and> base_rows sc = 0"
    and "r \<in> set (fst (estimator_body mt sc db ([], st)))"
  then show "execution_time_ms r = 0" using zero_rows_zero_time by blast
qed

text \<open>
  The theorem at the first record of a generator run, of an estimator run on loaded
  tables, and at the first scenario of a run without tables on PostgreSQL.
\<close>

theorem execution_time_and_rows_witness:
  "unit_samples half_sampler \<and>
   0 < execution_time_ms (hd (fst (generate_sample_data half_sampler id fresh_rng))) \<and>
   0 \<le> rows_returned (hd (fst (generate_sample_data half_sampler id fresh_rng))) \<and>
   generate_performance_results half_sampler id no_file unreadable loaded_tables fresh_rng =
     Inr (fst (estimate_results half_sampler 10000 20000 fresh_rng),
          fst (estimate_results half_sampler 10000 20000 fresh_rng), loaded_tables,
          snd (estimate_results half_sampler 10000 20000 fresh_rng)) \<and>
   0 < table_len loaded_tables ''orders'' \<and> 0 < table_len loaded_tables ''order_items'' \<and>
   0 < execution_time_ms (hd (fst (estimate_results half_sampler 10000 20000 fresh_rng))) \<and>
   0 \<le> rows_returned (hd (fst (estimate_results half_sampler 10000 20000 fresh_rng))) \<and>
   sc_type (hd (test_scenarios 0 0)) = ''simple'' \<and> base_rows (hd (test_scenarios 0 0)) = 0 \<and>
   execution_time_ms (hd (fst (estimator_body half_sampler (hd (test_scenarios 0 0)) ''PostgreSQL''
       ([], fresh_rng)))) = 0"
proof -
  note T = execution_time_and_rows [OF unit_half_sampler, of id fresh_rng no_file unreadable loaded_tables]
  have tl: "table_len loaded_tables ''orders'' = 10000" "table_len loaded_tables ''order_items'' = 20000"
    by (simp_all add: table_len_def loaded_tables_def)
  have gpr: "generate_performance_results half_sampler id no_file unreadable loaded_tables fresh_rng =
     Inr (fst (estimate_results half_sampler 10000 20000 fresh_rng),
          fst (estimate_results half_sampler 10000 20000 fresh_rng), loaded_tables,
          snd (estimate_results half_sampler 10000 20000 fresh_rng))"
    using results_with_tables [of loaded_tables half_sampler id no_file unreadable fresh_rng]
    by (simp add: tl) (simp add: loaded_tables_def)
  have 1: "hd (fst (generate_sample_data half_sampler id fresh_rng))
      \<in> set (fst (generate_sample_data half_sampler id fresh_rng))"
    using generate_nonempty by (rule hd_in_set)
  have 2: "hd (fst (estimate_results half_sampler 10000 20000 fresh_rng))
      \<in> set (fst (estimate_results half_sampler 10000 20000 fresh_rng))"
    using estimate_nonempty by (rule hd_in_set)
  have g: "0 < execution_time_ms (hd (fst (generate_sample_data half_sampler id fresh_rng))) \<and>
     0 \<le> rows_returned (hd (fst (generate_sample_data half_sampler id fresh_rng)))"
    using T [THEN conjunct1] 1 by blast
  have e: "0 < execution_time_ms (hd (fst (estimate_results half_sampler 10000 20000 fresh_rng))) \<and>
     0 \<le> rows_returned (hd (fst (estimate_results half_sampler 10000 20000 fresh_rng)))"
    using T [THEN conjunct2, THEN conjunct1, rule_format, OF gpr, of "hd (fst (estimate_results half_sampler 10000 20000 fresh_rng))"]
      2 tl by simp
  have s: "sc_type (hd (test_scenarios 0 0)) = ''simple''" "base_rows (hd (test_scenarios 0 0)) = 0"
    by (simp_all add: test_scenarios_def)
  have 3: "hd (fst (estimator_body half_sampler (hd (test_scenarios 0 0)) ''PostgreSQL'' ([], fresh_rng)))
      \<in> set (fst (estimator_body half_sampler (hd (test_scenarios 0 0)) ''PostgreSQL'' ([], fresh_rng)))"
    by (rule hd_in_set)
      (simp add: estimator_body_def estimator_base_time_def estimator_jitter_split_def
        np_random_uniform_def test_scenarios_def split_def Let_def)
  have z: "execution_time_ms (hd (fst (estimator_body half_sampler (hd (test_scenarios 0 0)) ''PostgreSQL''
       ([], fresh_rng)))) = 0"
    using T [THEN conjunct2, THEN conjunct2, rule_format, OF conjI [OF disjI1 [OF s(1)] s(2)] 3] .
  show ?thesis using unit_half_sampler g e gpr tl s z by simp
qed

text \<open>
  When no source file exists, both row counts are zero and the first record of the
  estimator (Q1, simple, PostgreSQL) has the execution time \<open>log10(1) * 80 * jitter = 0\<close>.
\<close>

theorem execution_time_zero_counterexample:
  "unit_samples half_sampler \<and>
   generate_performance_results half_sampler id no_file unreadable [] fresh_rng =
     Inr (fst (estimate_results half_sampler 0 0 fresh_rng),
          fst (estimate_results half_sampler 0 0 fresh_rng), [],
          snd (estimate_results half_sampler 0 0 fresh_rng)) \<and>
   fst (estimate_results half_sampler 0 0 fresh_rng) \<noteq> [] \<and>
   execution_time_ms (hd (fst (estimate_results half_sampler 0 0 fresh_rng))) = 0 \<and>
   \<not> 0 < execution_time_ms (hd (fst (estimate_results half_sampler 0 0 fresh_rng)))"
proof -
  have gpr: "generate_performance_results half_sampler id no_file unreadable [] fresh_rng =
     Inr (fst (estimate_results half_sampler 0 0 fresh_rng),
          fst (estimate_results half_sampler 0 0 fresh_rng), [],
          snd (estimate_results half_sampler 0 0 fresh_rng))"
    using results_without_files [of half_sampler id unreadable fresh_rng]
    by (simp add: no_file_def [abs_def])
  show ?thesis using unit_half_sampler gpr estimate_nonempty [of half_sampler 0 0 fresh_rng]
    by (simp add: degenerate_head)
qed

section \<open>The return-time ratio\<close>

text \<open>
  C3, as amended. With a random source that returns values of the unit interval, the
  return ratio of every record of the generator lies in the closed interval from 0 to
  100, as the charts and the report compute it and as the dashboard computes and rounds
  it. So does the return ratio of every record of the estimator whose execution time is
  positive, and of every record of the benchmark runner whose execution time is
  positive, provided that the clock of the runner did not go backwards. For a record of
  the estimator or of such a runner whose execution time is zero the return time is zero
  too, and the ratio is NaN.
\<close>

theorem return_ratio_in_range:
  assumes "unit_samples mt" and "monotone_clock runs"
  shows "(\<forall>r\<in>set (fst (generate_sample_data mt to_csv g)).
            in_percent_range (return_ratio r) \<and> in_percent_range (load_data_return_ratio r)) \<and>
         (\<forall>res. generate_performance_results mt to_csv ex read_csv tbls g = Inr res \<longrightarrow>
            (\<forall>r\<in>set (fst res).
               (0 < execution_time_ms r \<longrightarrow>
                  in_percent_range (return_ratio r) \<and> in_percent_range (load_data_return_ratio r)) \<and>
               (execution_time_ms r = 0 \<longrightarrow>
                  return_ratio r = NaN \<and> load_data_return_ratio r = NaN))) \<and>
         (\<forall>r\<in>set (benchmark_sql_query runs db_name qname qtype []).
            (0 < execution_time_ms r \<longrightarrow>
               in_percent_range (return_ratio r) \<and> in_percent_range (load_data_return_ratio r)) \<and>
            (execution_time_ms r = 0 \<longrightarrow>
               return_ratio r = NaN \<and> load_data_return_ratio r = NaN)) \<and>
         (\<forall>r\<in>set (benchmark_influx_query runs query qname qtype []).
            (0 < execution_time_ms r \<longrightarrow>
               in_percent_range (return_ratio r) \<and> in_percent_range (load_data_return_ratio r)) \<and>
            (execution_time_ms r = 0 \<longrightarrow>
               return_ratio r = NaN \<and> load_data_return_ratio r = NaN))"
proof (intro conjI allI impI ballI)
  fix r
  assume "r \<in> set (fst (generate_sample_data mt to_csv g))"
  then have ok: "gen_ok mt r" using generate_ok by blast
  have p: "0 < execution_time_ms r" using gen_ok_facts(1) [OF ok assms(1)] by linarith
  show "in_percent_range (return_ratio r)"
    using gen_ok_facts(3) [OF ok assms(1)] gen_ok_facts(4) [OF ok assms(1)] p by (rule ratio_in_range(1))
  show "in_percent_range (load_data_return_ratio r)"
    using gen_ok_facts(3) [OF ok assms(1)] gen_ok_facts(4) [OF ok assms(1)] p by (rule ratio_in_range(2))
next
  fix res r
  assume gpr: "generate_performance_results mt to_csv ex read_csv tbls g = Inr res"
    and r: "r \<in> set (fst res)"
  obtain ne where ok: "est_ok mt ne r" using estimator_records_ok [OF gpr r] by blast
  note a = est_ok_facts(3) [OF ok assms(1)] and b = est_ok_facts(4) [OF ok assms(1)]
  show "in_percent_range (return_ratio r)" if "0 < execution_time_ms r"
    using a b that by (rule ratio_in_range(1))
  show "in_percent_range (load_data_return_ratio r)" if "0 < execution_time_ms r"
    using a b that by (rule ratio_in_range(2))
  show "return_ratio r = NaN" if "execution_time_ms r = 0"
    using a b that by (rule ratio_nan(1))
  show "load_data_return_ratio r = NaN" if "execution_time_ms r = 0"
    using a b that by (rule ratio_nan(2))
next
  fix r
  assume r: "r \<in> set (benchmark_sql_query runs db_name qname qtype [])"
  note a = benchmark_sql_order(1) [OF assms(2) r] and b = benchmark_sql_order(2) [OF assms(2) r]
  show "in_percent_range (return_ratio r)" if "0 < execution_time_ms r"
    using a b that by (rule ratio_in_range(1))
  show "in_percent_range (load_data_return_ratio r)" if "0 < execution_time_ms r"
    using a b that by (rule ratio_in_range(2))
  show "return_ratio r = NaN" if "execution_time_ms r = 0"
    using a b that by (rule ratio_nan(1))
  show "load_data_return_ratio r = NaN" if "execution_time_ms r = 0"
    using a b that by (rule ratio_nan(2))
next
  fix r
  assume r: "r \<in> set (benchmark_influx_query runs query qname qtype [])"
  note a = benchmark_influx_order(1) [OF assms(2) r] and b = benchmark_influx_order(2) [OF assms(2) r]
  show "in_percent_range (return_ratio r)" if "0 < execution_time_ms r"
    using a b that by (rule ratio_in_range(1))
  show "in_percent_range (load_data_return_ratio r)" if "0 < execution_time_ms r"
    using a b that by (rule ratio_in_range(2))
  show "return_ratio r = NaN" if "execution_time_ms r = 0"
    using a b that by (rule ratio_nan(1))
  show "load_data_return_ratio r = NaN" if "execution_time_ms r = 0"
    using a b that by (rule ratio_nan(2))
qed

text \<open>
  The theorem at the first record of a generator run, of an estimator run on loaded
  tables (positive execution time), of an estimator run without tables (execution
  time zero), at the record of a benchmark run of 1.002 ms, through either entry point
  of the runner, and at the record of a benchmark run whose readings fall into one
  clock tick (execution time zero).
\<close>

theorem return_ratio_in_range_witness:
  "unit_samples half_sampler \<and> monotone_clock boundary_runs \<and> monotone_clock tick_runs \<and>
   in_percent_range (return_ratio (hd (fst (generate_sample_data half_sampler id fresh_rng)))) \<and>
   in_percent_range (load_data_return_ratio (hd (fst (generate_sample_data half_sampler id fresh_rng)))) \<and>
   generate_performance_results half_sampler id no_file unreadable loaded_tables fresh_rng =
     Inr (fst (estimate_results half_sampler 10000 20000 fresh_rng),
          fst (estimate_results half_sampler 10000 20000 fresh_rng), loaded_tables,
          snd (estimate_results half_sampler 10000 20000 fresh_rng)) \<and>
   0 < execution_time_ms (hd (fst (estimate_results half_sampler 10000 20000 fresh_rng))) \<and>
   in_percent_range (return_ratio (hd (fst (estimate_results half_sampler 10000 20000 fresh_rng)))) \<and>
   in_percent_range (load_data_return_ratio (hd (fst (estimate_results half_sampler 10000 20000 fresh_rng)))) \<and>
   generate_performance_results half_sampler id no_file unreadable [] fresh_rng =
     Inr (fst (estimate_results half_sampler 0 0 fresh_rng),
          fst (estimate_results half_sampler 0 0 fresh_rng), [],
          snd (estimate_results half_sampler 0 0 fresh_rng)) \<and>
   execution_time_ms (hd (fst (estimate_results half_sampler 0 0 fresh_rng))) = 0 \<and>
   return_ratio (hd (fst (estimate_results half_sampler 0 0 fresh_rng))) = NaN \<and>
   load_data_return_ratio (hd (fst (estimate_results half_sampler 0 0 fresh_rng))) = NaN \<and>
   0 < execution_time_ms (hd (benchmark_sql_query boundary_runs ''DuckDB'' ''Q1'' ''simple'' [])) \<and>
   in_percent_range (return_ratio (hd (benchmark_sql_query boundary_runs ''DuckDB'' ''Q1'' ''simple'' []))) \<and>
   in_percent_range (load_data_return_ratio (hd (benchmark_sql_query boundary_runs ''DuckDB'' ''Q1'' ''simple'' []))) \<and>
   in_percent_range (return_ratio (hd (benchmark_influx_query boundary_runs (Some ''flux'') ''Q1'' ''simple'' []))) \<and>
   in_percent_range (load_data_return_ratio (hd (benchmark_influx_query boundary_runs (Some ''flux'') ''Q1'' ''simple'' []))) \<and>
   execution_time_ms (hd (benchmark_sql_query tick_runs ''DuckDB'' ''Q1'' ''simple'' [])) = 0 \<and>
   return_ratio (hd (benchmark_sql_query tick_runs ''DuckDB'' ''Q1'' ''simple'' [])) = NaN \<and>
   load_data_return_ratio (hd (benchmark_sql_query tick_runs ''DuckDB'' ''Q1'' ''simple'' [])) = NaN"
proof -
  note T1 = return_ratio_in_range [OF unit_half_sampler monotone_boundary_runs,
      of id fresh_rng no_file unreadable loaded_tables "''DuckDB''" "''Q1''" "''simple''" "Some ''flux''"]
  note T0 = return_ratio_in_range [OF unit_half_sampler monotone_tick_runs,
      of id fresh_rng no_file unreadable "[]" "''DuckDB''" "''Q1''" "''simple''" "Some ''flux''"]
  let ?g = "hd (fst (generate_sample_data half_sampler id fresh_rng))"
  let ?l = "hd (fst (estimate_results half_sampler 10000 20000 fresh_rng))"
  let ?d = "hd (fst (estimate_results half_sampler 0 0 fresh_rng))"
  let ?b = "hd (benchmark_sql_query boundary_runs ''DuckDB'' ''Q1'' ''simple'' [])"
  let ?i = "hd (benchmark_influx_query boundary_runs (Some ''flux'') ''Q1'' ''simple'' [])"
  let ?t = "hd (benchmark_sql_query tick_runs ''DuckDB'' ''Q1'' ''simple'' [])"
  have 1: "?g \<in> set (fst (generate_sample_data half_sampler id fresh_rng))"
    using generate_nonempty by (rule hd_in_set)
  have 2: "?l \<in> set (fst (estimate_results half_sampler 10000 20000 fresh_rng))"
    using estimate_nonempty by (rule hd_in_set)
  have 3: "?d \<in> set (fst (estimate_results half_sampler 0 0 fresh_rng))"
    using estimate_nonempty by (rule hd_in_set)
  have 4: "?b \<in> set (benchmark_sql_query boundary_runs ''DuckDB'' ''Q1'' ''simple'' [])"
    by (rule hd_in_set) (simp add: boundary_record)
  have 5: "?i \<in> set (benchmark_influx_query boundary_runs (Some ''flux'') ''Q1'' ''simple'' [])"
    by (rule hd_in_set) (simp add: benchmark_influx_query_def boundary_record)
  have 6: "?t \<in> set (benchmark_sql_query tick_runs ''DuckDB'' ''Q1'' ''simple'' [])"
    by (rule hd_in_set) (simp add: tick_record)
  have d0: "execution_time_ms ?d = 0" by (simp add: degenerate_head)
  have b1: "0 < execution_time_ms ?b" by (simp add: boundary_record)
  have i1: "0 < execution_time_ms ?i" by (simp add: benchmark_influx_query_def boundary_record)
  have t0: "execution_time_ms ?t = 0" by (simp add: tick_record)
  have g: "in_percent_range (return_ratio ?g) \<and> in_percent_range (load_data_return_ratio ?g)"
    using T1 [THEN conjunct1] 1 by blast
  have l: "in_percent_range (return_ratio ?l) \<and> in_percent_range (load_data_return_ratio ?l)"
    using T1 [THEN conjunct2, THEN conjunct1, rule_format, OF loaded_run, of ?l] 2
      loaded_head_positive by simp
  have d: "return_ratio ?d = NaN \<and> load_data_return_ratio ?d = NaN"
    using T0 [THEN conjunct2, THEN conjunct1, rule_format, OF degenerate_run, of ?d] 3 d0 by simp
  have b: "in_percent_range (return_ratio ?b) \<and> in_percent_range (load_data_return_ratio ?b)"
    using T1 [THEN conjunct2, THEN conjunct2, THEN conjunct1, THEN bspec, OF 4] b1 by blast
  have i: "in_percent_range (return_ratio ?i) \<and> in_percent_range (load_data_return_ratio ?i)"
    using T1 [THEN conjunct2, THEN conjunct2, THEN conjunct2, THEN bspec, OF 5] i1 by blast
  have t: "return_ratio ?t = NaN \<and> load_data_return_ratio ?t = NaN"
    using T0 [THEN conjunct2, THEN conjunct2, THEN conjunct1, THEN bspec, OF 6] t0 by blast
  show ?thesis
    using unit_half_sampler monotone_boundary_runs monotone_tick_runs g l d d0 loaded_head_positive
      loaded_run degenerate_run b1 b i t0 t by simp
qed

text \<open>
  Three records whose ratio is not between 0 and 100. The first record of the estimator
  when no source file exists has the return time 0 and the execution time 0, and so has
  the record of a benchmark run whose three readings fall into one clock tick; every
  consumer computes \<open>0 / 0\<close>, which is NaN. When the clock steps back by a millisecond
  between the second and the third reading, the runner stores the return time -1 and
  the execution time 1, and the ratio is -100.
\<close>

theorem return_ratio_nan_counterexample:
  "unit_samples half_sampler \<and>
   generate_performance_results half_sampler id no_file unreadable [] fresh_rng =
     Inr (fst (estimate_results half_sampler 0 0 fresh_rng),
          fst (estimate_results half_sampler 0 0 fresh_rng), [],
          snd (estimate_results half_sampler 0 0 fresh_rng)) \<and>
   fst (estimate_results half_sampler 0 0 fresh_rng) \<noteq> [] \<and>
   return_ratio (hd (fst (estimate_results half_sampler 0 0 fresh_rng))) = NaN \<and>
   load_data_return_ratio (hd (fst (estimate_results half_sampler 0 0 fresh_rng))) = NaN \<and>
   \<not> in_percent_range (return_ratio (hd (fst (estimate_results half_sampler 0 0 fresh_rng)))) \<and>
   \<not> in_percent_range (load_data_return_ratio (hd (fst (estimate_results half_sampler 0 0 fresh_rng)))) \<and>
   monotone_clock tick_runs \<and>
   benchmark_sql_query tick_runs ''DuckDB'' ''Q1'' ''simple'' [] =
     [\<lparr>query_name = ''Q1'', database = ''DuckDB'', execution_time_ms = 0,
       query_time_ms = 0, return_time_ms = 0, rows_returned = 5, query_type = ''simple''\<rparr>] \<and>
   return_ratio (hd (benchmark_sql_query tick_runs ''DuckDB'' ''Q1'' ''simple'' [])) = NaN \<and>
   load_data_return_ratio (hd (benchmark_sql_query tick_runs ''DuckDB'' ''Q1'' ''simple'' [])) = NaN \<and>
   \<not> in_percent_range (return_ratio (hd (benchmark_sql_query tick_runs ''DuckDB'' ''Q1'' ''simple'' []))) \<and>
   \<not> in_percent_range (load_data_return_ratio (hd (benchmark_sql_query tick_runs ''DuckDB'' ''Q1'' ''simple'' []))) \<and>
   benchmark_sql_query stepback_runs ''DuckDB'' ''Q1'' ''simple'' [] =
     [\<lparr>query_name = ''Q1'', database = ''DuckDB'', execution_time_ms = 1,
       query_time_ms = 2, return_time_ms = - 1, rows_returned = 5, query_type = ''simple''\<rparr>] \<and>
   return_ratio (hd (benchmark_sql_query stepback_runs ''DuckDB'' ''Q1'' ''simple'' [])) = Num (- 100) \<and>
   load_data_return_ratio (hd (benchmark_sql_query stepback_runs ''DuckDB'' ''Q1'' ''simple'' [])) = Num (- 100) \<and>
   \<not> in_percent_range (return_ratio (hd (benchmark_sql_query stepback_runs ''DuckDB'' ''Q1'' ''simple'' []))) \<and>
   \<not> in_percent_range (load_data_return_ratio (hd (benchmark_sql_query stepback_runs ''DuckDB'' ''Q1'' ''simple'' [])))"
proof -
  have e: "return_ratio (hd (fst (estimate_results half_sampler 0 0 fresh_rng))) = NaN"
    "load_data_return_ratio (hd (fst (estimate_results half_sampler 0 0 fresh_rng))) = NaN"
    by (simp_all add: degenerate_head return_ratio_def load_data_return_ratio_def pd_div_def)
  have t: "return_ratio (hd (benchmark_sql_query tick_runs ''DuckDB'' ''Q1'' ''simple'' [])) = NaN"
    "load_data_return_ratio (hd (benchmark_sql_query tick_runs ''DuckDB'' ''Q1'' ''simple'' [])) = NaN"
    by (simp_all add: tick_record return_ratio_def load_data_return_ratio_def pd_div_def)
  have "dec2 (- 100) = - 100" by (simp add: dec2_def py_round_def)
  then have r: "py_round2 (- 100) = - 100" by (simp only: py_round2_def dbl_minus_100)
  have s1: "return_ratio (hd (benchmark_sql_query stepback_runs ''DuckDB'' ''Q1'' ''simple'' [])) = Num (- 100)"
    by (simp add: stepback_record return_ratio_def pd_div_def dbl_minus_1 dbl_minus_100)
  have s2: "load_data_return_ratio (hd (benchmark_sql_query stepback_runs ''DuckDB'' ''Q1'' ''simple'' [])) = Num (- 100)"
    unfolding load_data_return_ratio_def s1 by (simp add: r)
  show ?thesis
    unfolding e t s1 s2
    using unit_half_sampler degenerate_run estimate_nonempty [of half_sampler 0 0 fresh_rng]
      monotone_tick_runs tick_record stepback_record
    by (simp add: in_percent_range_def)
qed

section \<open>Loading the tables\<close>

lemma try_encodings_char:
  "try_encodings f rd encs evs =
     (case dropWhile (\<lambda>enc. rd enc = Inl UnicodeDecodeError) encs of
        [] \<Rightarrow> (evs @ map (ReadCsv f) encs, Inr None)
      | enc # _ \<Rightarrow>
          (evs @ map (ReadCsv f) (takeWhile (\<lambda>enc. rd enc = Inl UnicodeDecodeError) encs @ [enc]),
           case rd enc of Inr df \<Rightarrow> Inr (Some df) | Inl e \<Rightarrow> Inl e))"
proof (induction encs arbitrary: evs)
  case Nil
  show ?case by simp
next
  case (Cons a encs)
  show ?case
  proof (cases "rd a")
    case (Inl e)
    show ?thesis
    proof (cases "e = UnicodeDecodeError")
      case True
      then show ?thesis using Inl Cons.IH [of "evs @ [ReadCsv f a]"]
        by (cases "dropWhile (\<lambda>enc. rd enc = Inl UnicodeDecodeError) encs")
          (simp_all del: dropWhile_eq_Nil_conv)
    next
      case False
      then show ?thesis using Inl by simp
    qed
  next
    case (Inr df)
    then show ?thesis by simp
  qed
qed

lemma try_encodings_stop:
  assumes "try_encodings f rd encs evs = (evs1, Inl e)"
  shows "e \<noteq> UnicodeDecodeError \<and> (\<exists>enc. rd enc = Inl e)"
  using assms
proof (induction encs arbitrary: evs)
  case Nil
  then show ?case by simp
next
  case (Cons a encs)
  then show ?case by (cases "rd a") (auto split: if_splits)
qed

lemma load_table_missing:
  "\<not> ex f \<Longrightarrow> load_table ex read_csv (f, name) (tb, evs) = Inr (tb, evs @ [FileMissing f])"
  by (simp add: load_table_def)

lemma load_table_existing:
  assumes "ex f" and "\<forall>enc e. read_csv f enc = Inl e \<longrightarrow> is_Exception e"
  shows "load_table ex read_csv (f, name) (tb, evs) =
     (case dropWhile (\<lambda>enc. read_csv f enc = Inl UnicodeDecodeError) encodings of
        [] \<Rightarrow> Inr (tb, evs @ map (ReadCsv f) encodings)
      | enc # _ \<Rightarrow>
          (case read_csv f enc of
             Inr df \<Rightarrow>
               Inr (AList.update name df tb,
                    evs @ map (ReadCsv f)
                      (takeWhile (\<lambda>enc. read_csv f enc = Inl UnicodeDecodeError) encodings @ [enc]) @
                    [Loaded f df name])
           | Inl e \<Rightarrow>
               Inr (tb,
                    evs @ map (ReadCsv f)
                      (takeWhile (\<lambda>enc. read_csv f enc = Inl UnicodeDecodeError) encodings @ [enc]) @
                    [LoadFailed f e])))"
proof (cases "dropWhile (\<lambda>enc. read_csv f enc = Inl UnicodeDecodeError) encodings")
  case Nil
  then show ?thesis using assms(1)
    by (simp add: load_table_def try_encodings_char del: dropWhile_eq_Nil_conv)
next
  case (Cons enc rest)
  show ?thesis
  proof (cases "read_csv f enc")
    case (Inl e)
    then have "is_Exception e" using assms(2) by blast
    then show ?thesis using assms(1) Cons Inl by (simp add: load_table_def try_encodings_char)
  next
    case (Inr df)
    then show ?thesis using assms(1) Cons by (simp add: load_table_def try_encodings_char)
  qed
qed

lemma load_table_total:
  assumes "\<forall>f enc e. read_csv f enc = Inl e \<longrightarrow> is_Exception e"
  shows "\<exists>s'. load_table ex read_csv item s = Inr s'"
proof -
  obtain f name where item: "item = (f, name)" by force
  obtain tb evs where s: "s = (tb, evs)" by force
  show ?thesis
  proof (cases "ex f")
    case False
    then show ?thesis by (simp add: item s load_table_missing)
  next
    case True
    have e: "\<forall>enc e. read_csv f enc = Inl e \<longrightarrow> is_Exception e" using assms by blast
    show ?thesis
      unfolding item s load_table_existing [of ex f read_csv name tb evs, OF True e]
      by (simp split: list.splits sum.splits)
  qed
qed

lemma load_loop_total:
  assumes "\<forall>f enc e. read_csv f enc = Inl e \<longrightarrow> is_Exception e"
  shows "\<exists>s'. load_loop ex read_csv items s = Inr s'"
proof (induction items arbitrary: s)
  case Nil
  show ?case by simp
next
  case (Cons item items)
  obtain s1 where "load_table ex read_csv item s = Inr s1"
    using load_table_total [OF assms] by blast
  then show ?case using Cons.IH [of s1] by simp
qed

lemma utf8_csv_exceptions: "\<forall>f enc e. utf8_csv f enc = Inl e \<longrightarrow> is_Exception e"
  by (simp add: utf8_csv_def is_Exception_def)

lemma empty_csv_exceptions: "\<forall>f enc e. empty_csv f enc = Inl e \<longrightarrow> is_Exception e"
  by (simp add: empty_csv_def is_Exception_def)

text \<open>
  C8, as amended. The candidate encodings are gbk, utf-8, gb18030 and latin1, in this
  order. When \<^verbatim>\<open>pd.read_csv\<close> raises nothing but instances of \<^verbatim>\<open>Exception\<close>, no
  exception leaves \<^verbatim>\<open>load_all_tables\<close>. A missing file is reported and skipped. For a
  file that exists the loader calls \<^verbatim>\<open>pd.read_csv\<close> with the candidates in order and
  moves to the next one only after a \<^verbatim>\<open>UnicodeDecodeError\<close>; at the first candidate that
  does not raise it, the loader stores the table if the call returned a frame, and
  otherwise (any other exception) reports the failure and skips the table without
  trying the remaining candidates; when every candidate raises \<^verbatim>\<open>UnicodeDecodeError\<close>
  the table is skipped.
\<close>

theorem loader_tries_encodings_in_order:
  assumes "\<forall>f enc e. read_csv f enc = Inl e \<longrightarrow> is_Exception e"
  shows "encodings = [''gbk'', ''utf-8'', ''gb18030'', ''latin1''] \<and>
    (\<exists>s'. load_all_tables ex read_csv tbls = Inr s') \<and>
    (\<not> ex f \<longrightarrow>
       load_table ex read_csv (f, name) (tb, evs) = Inr (tb, evs @ [FileMissing f])) \<and>
    (ex f \<longrightarrow>
       load_table ex read_csv (f, name) (tb, evs) =
         (case dropWhile (\<lambda>enc. read_csv f enc = Inl UnicodeDecodeError) encodings of
            [] \<Rightarrow> Inr (tb, evs @ map (ReadCsv f) encodings)
          | enc # _ \<Rightarrow>
              (case read_csv f enc of
                 Inr df \<Rightarrow>
                   Inr (AList.update name df tb,
                        evs @ map (ReadCsv f)
                          (takeWhile (\<lambda>enc. read_csv f enc = Inl UnicodeDecodeError) encodings @ [enc]) @
                        [Loaded f df name])
               | Inl e \<Rightarrow>
                   Inr (tb,
                        evs @ map (ReadCsv f)
                          (takeWhile (\<lambda>enc. read_csv f enc = Inl UnicodeDecodeError) encodings @ [enc]) @
                        [LoadFailed f e]))))"
proof (intro conjI impI)
  show "encodings = [''gbk'', ''utf-8'', ''gb18030'', ''latin1'']" by (simp add: encodings_def)
  show "\<exists>s'. load_all_tables ex read_csv tbls = Inr s'"
    unfolding load_all_tables_def by (rule load_loop_total [OF assms])
  show "load_table ex read_csv (f, name) (tb, evs) = Inr (tb, evs @ [FileMissing f])" if "\<not> ex f"
    using that by (rule load_table_missing)
  have e: "\<forall>enc e. read_csv f enc = Inl e \<longrightarrow> is_Exception e" using assms by blast
  show "load_table ex read_csv (f, name) (tb, evs) =
         (case dropWhile (\<lambda>enc. read_csv f enc = Inl UnicodeDecodeError) encodings of
            [] \<Rightarrow> Inr (tb, evs @ map (ReadCsv f) encodings)
          | enc # _ \<Rightarrow>
              (case read_csv f enc of
                 Inr df \<Rightarrow>
                   Inr (AList.update name df tb,
                        evs @ map (ReadCsv f)
                          (takeWhile (\<lambda>enc. read_csv f enc = Inl UnicodeDecodeError) encodings @ [enc]) @
                        [Loaded f df name])
               | Inl e \<Rightarrow>
                   Inr (tb,
                        evs @ map (ReadCsv f)
                          (takeWhile (\<lambda>enc. read_csv f enc = Inl UnicodeDecodeError) encodings @ [enc]) @
                        [LoadFailed f e])))" if "ex f"
    using that e by (rule load_table_existing)
qed

text \<open>
  The theorem at three concrete files: one that parses as utf-8 after gbk failed to
  decode, an empty one, and a missing one.
\<close>

theorem loader_tries_encodings_in_order_witness:
  "all_files OrdersCsv \<and>
   load_table all_files utf8_csv (OrdersCsv, ''orders'') ([], []) =
     Inr ([(''orders'', 3)],
          [ReadCsv OrdersCsv ''gbk'', ReadCsv OrdersCsv ''utf-8'', Loaded OrdersCsv 3 ''orders'']) \<and>
   load_table all_files empty_csv (OrdersCsv, ''orders'') ([], []) =
     Inr ([], [ReadCsv OrdersCsv ''gbk'', LoadFailed OrdersCsv EmptyDataError]) \<and>
   \<not> no_file OrdersCsv \<and>
   load_table no_file utf8_csv (OrdersCsv, ''orders'') ([], []) = Inr ([], [FileMissing OrdersCsv]) \<and>
   \<not> isl (load_all_tables all_files utf8_csv []) \<and>
   \<not> isl (load_all_tables all_files empty_csv [])"
proof -
  note U = loader_tries_encodings_in_order [OF utf8_csv_exceptions, of all_files "[]" OrdersCsv "''orders''" "[]" "[]"]
  note E = loader_tries_encodings_in_order [OF empty_csv_exceptions, of all_files "[]" OrdersCsv "''orders''" "[]" "[]"]
  note N = loader_tries_encodings_in_order [OF utf8_csv_exceptions, of no_file "[]" OrdersCsv "''orders''" "[]" "[]"]
  have af: "all_files OrdersCsv" by (simp add: all_files_def)
  have nf: "\<not> no_file OrdersCsv" by (simp add: no_file_def)
  have u: "utf8_csv OrdersCsv ''gbk'' = Inl UnicodeDecodeError" "utf8_csv OrdersCsv ''utf-8'' = Inr 3"
    by (simp_all add: utf8_csv_def)
  have e: "empty_csv OrdersCsv ''gbk'' = Inl EmptyDataError"
    by (simp add: empty_csv_def)
  have 1: "load_table all_files utf8_csv (OrdersCsv, ''orders'') ([], []) =
     Inr ([(''orders'', 3)],
          [ReadCsv OrdersCsv ''gbk'', ReadCsv OrdersCsv ''utf-8'', Loaded OrdersCsv 3 ''orders''])"
    unfolding U [THEN conjunct2, THEN conjunct2, THEN conjunct2, THEN mp, OF af]
    by (simp add: encodings_def u)
  have 2: "load_table all_files empty_csv (OrdersCsv, ''orders'') ([], []) =
     Inr ([], [ReadCsv OrdersCsv ''gbk'', LoadFailed OrdersCsv EmptyDataError])"
    unfolding E [THEN conjunct2, THEN conjunct2, THEN conjunct2, THEN mp, OF af]
    by (simp add: encodings_def e)
  have 3: "load_table no_file utf8_csv (OrdersCsv, ''orders'') ([], []) = Inr ([], [FileMissing OrdersCsv])"
    using N [THEN conjunct2, THEN conjunct2, THEN conjunct1, THEN mp, OF nf] by simp
  have 4: "\<not> isl (load_all_tables all_files utf8_csv [])"
    using U [THEN conjunct2, THEN conjunct1] by auto
  have 5: "\<not> isl (load_all_tables all_files empty_csv [])"
    using E [THEN conjunct2, THEN conjunct1] by auto
  show ?thesis using af nf 1 2 3 4 5 by blast
qed

text \<open>
  An empty file makes \<^verbatim>\<open>pd.read_csv\<close> raise \<^verbatim>\<open>EmptyDataError\<close>, a parse failure. The
  loader gives the table up after the first candidate; trying the next candidate after
  any failure, as the claim has it, would read the file with all four.
\<close>

theorem loader_stops_at_parse_failure_counterexample:
  "all_files OrdersCsv \<and>
   try_encodings OrdersCsv (empty_csv OrdersCsv) encodings [] =
     ([ReadCsv OrdersCsv ''gbk''], Inl EmptyDataError) \<and>
   spec_try_encodings OrdersCsv (empty_csv OrdersCsv) encodings [] =
     ([ReadCsv OrdersCsv ''gbk'', ReadCsv OrdersCsv ''utf-8'', ReadCsv OrdersCsv ''gb18030'',
       ReadCsv OrdersCsv ''latin1''], Inr None) \<and>
   try_encodings OrdersCsv (empty_csv OrdersCsv) encodings [] \<noteq>
     spec_try_encodings OrdersCsv (empty_csv OrdersCsv) encodings [] \<and>
   load_all_tables all_files empty_csv [] =
     Inr ([], [ReadCsv OrdersCsv ''gbk'', LoadFailed OrdersCsv EmptyDataError,
               ReadCsv CustomersCsv ''gbk'', LoadFailed CustomersCsv EmptyDataError,
               ReadCsv SellersCsv ''gbk'', LoadFailed SellersCsv EmptyDataError,
               ReadCsv PaymentsCsv ''gbk'', LoadFailed PaymentsCsv EmptyDataError,
               ReadCsv OrderItemsCsv ''gbk'', LoadFailed OrderItemsCsv EmptyDataError])"
  by (simp add: all_files_def empty_csv_def encodings_def load_all_tables_def file_mapping_def
      load_table_def is_Exception_def)

section \<open>The estimator's base time, jitter and split\<close>

lemma ln10_ge_1: "1 \<le> ln (10::real)"
proof -
  have "exp 1 \<le> (3::real)" by (rule exp_le)
  then have "exp 1 \<le> (10::real)" by linarith
  then show ?thesis by (subst ln_ge_iff) simp_all
qed

lemma log10_10001_bounds: "4 < log 10 10001" "log 10 10001 \<le> 4 + 1 / 10000"
proof -
  have "log 10 ((10 ^ 4) * (10001 / 10000)) = log 10 (10 ^ 4) + log 10 (10001 / 10000 :: real)"
    by (rule log_mult_pos) simp_all
  then have s: "log 10 10001 = log 10 (10 ^ 4) + log 10 (10001 / 10000 :: real)"
    by simp
  have p: "log 10 (10 ^ 4) = (4::real)" by (subst log_nat_power) simp_all
  have lo: "0 < log 10 (10001 / 10000 :: real)" by simp
  have "ln (1 + 1 / 10000 :: real) \<le> 1 / 10000" by (rule ln_add_one_self_le_self) simp
  then have l: "ln (10001 / 10000 :: real) \<le> 1 / 10000" by simp
  have "log 10 (10001 / 10000) = ln (10001 / 10000) / ln (10::real)" by (simp add: log_def)
  also have "\<dots> \<le> (1 / 10000) / ln 10"
    using l ln10_ge_1 by (intro divide_right_mono) simp_all
  also have "\<dots> \<le> (1 / 10000) / 1"
    using ln10_ge_1 by (intro divide_left_mono) simp_all
  finally have up: "log 10 (10001 / 10000 :: real) \<le> 1 / 10000" by simp
  show "4 < log 10 10001" using s p lo by linarith
  show "log 10 10001 \<le> 4 + 1 / 10000" using s p up by linarith
qed

lemma log10_10001_times_40: "\<bar>log 10 10001 * 40 - 160\<bar> < 1 / 100"
  using log10_10001_bounds by (simp add: abs_less_iff)

lemma scenario_base_rows:
  "map base_rows (test_scenarios oc oic) =
     [real oc * (3 / 10), 27, real oc * (6 / 10), 3000, real oc * (1 / 10), 24,
      real oc * (5 / 100), 4000, real oic, 3000, real oc * (8 / 10), 5000, real oc, 1, 1, 1]"
  by (simp add: test_scenarios_def)

lemma scenario_types:
  "map sc_type (test_scenarios oc oic) =
     replicate 8 ''simple'' @ replicate 5 ''complex'' @ replicate 3 ''crud''"
  by (simp add: test_scenarios_def numeral_eq_Suc)

lemma scenario_type_cases:
  "sc \<in> set (test_scenarios oc oic) \<Longrightarrow>
     sc_type sc = ''simple'' \<or> sc_type sc = ''complex'' \<or> sc_type sc = ''crud''"
  by (auto simp add: test_scenarios_def)

lemma coefficient_table:
  "map (coefficient ''simple'') databases = [80, 40, 30, 28, 100]"
  "map (coefficient ''complex'') databases = [200, 150, 100, 95, 300]"
  by (simp_all add: coefficient_def databases_def)

text \<open>
  C6, as amended. For every scenario that is not a crud scenario, the base time is
  \<open>log10(base_rows + 1)\<close> times the coefficient of the database, where \<open>base_rows\<close> is
  the scenario's own estimate of the result size (a fixed fraction of the orders row
  count, the order-items row count, or a constant), not the row count of a source
  table. The coefficients are 80, 40, 30, 28 and 100 for the simple scenarios and 200,
  150, 100, 95 and 300 for the complex ones. A simple scenario with \<open>base_rows\<close> of
  10,000 gets, with the PostgreSQL_indexed coefficient 40, the base time
  \<open>log10(10001) * 40\<close>, which is within a hundredth of 160.
\<close>

theorem estimator_base_time_formula:
  "(\<forall>sc\<in>set (test_scenarios oc oic). sc_type sc \<noteq> ''crud'' \<longrightarrow>
      estimator_base_time mt sc db st =
        Some (log 10 (base_rows sc + 1) * coefficient (sc_type sc) db, st)) \<and>
   map base_rows (test_scenarios oc oic) =
     [real oc * (3 / 10), 27, real oc * (6 / 10), 3000, real oc * (1 / 10), 24,
      real oc * (5 / 100), 4000, real oic, 3000, real oc * (8 / 10), 5000, real oc, 1, 1, 1] \<and>
   map (coefficient ''simple'') databases = [80, 40, 30, 28, 100] \<and>
   map (coefficient ''complex'') databases = [200, 150, 100, 95, 300] \<and>
   (sc_type sc0 = ''simple'' \<and> base_rows sc0 = 10000 \<longrightarrow>
      estimator_base_time mt sc0 ''PostgreSQL_indexed'' st = Some (log 10 10001 * 40, st)) \<and>
   \<bar>log 10 10001 * 40 - 160\<bar> < 1 / 100"
proof (intro conjI ballI impI)
  fix sc
  assume "sc \<in> set (test_scenarios oc oic)" and "sc_type sc \<noteq> ''crud''"
  then have "sc_type sc = ''simple'' \<or> sc_type sc = ''complex''"
    using scenario_type_cases by blast
  then show "estimator_base_time mt sc db st =
      Some (log 10 (base_rows sc + 1) * coefficient (sc_type sc) db, st)"
    by (rule estimator_base_time_noncrud)
next
  assume a: "sc_type sc0 = ''simple'' \<and> base_rows sc0 = 10000"
  then have "estimator_base_time mt sc0 ''PostgreSQL_indexed'' st =
      Some (log 10 (base_rows sc0 + 1) * coefficient (sc_type sc0) ''PostgreSQL_indexed'', st)"
    by (intro estimator_base_time_noncrud) simp
  then show "estimator_base_time mt sc0 ''PostgreSQL_indexed'' st = Some (log 10 10001 * 40, st)"
    using a by (simp add: coefficient_def)
qed (rule scenario_base_rows coefficient_table log10_10001_times_40)+

text \<open>
  The theorem at scenario Q5 of the simple batch with an orders table of 100,000 rows,
  whose \<open>base_rows\<close> is 10,000.
\<close>

theorem estimator_base_time_formula_witness:
  "test_scenarios 100000 0 ! 4 \<in> set (test_scenarios 100000 0) \<and>
   sc_name (test_scenarios 100000 0 ! 4) = ''Q5'' \<and>
   sc_type (test_scenarios 100000 0 ! 4) = ''simple'' \<and>
   sc_type (test_scenarios 100000 0 ! 4) \<noteq> ''crud'' \<and>
   base_rows (test_scenarios 100000 0 ! 4) = 10000 \<and>
   estimator_base_time half_sampler (test_scenarios 100000 0 ! 4) ''PostgreSQL_indexed'' fresh_rng =
     Some (log 10 10001 * 40, fresh_rng) \<and>
   estimator_base_time half_sampler (test_scenarios 100000 0 ! 4) ''PostgreSQL_indexed'' fresh_rng =
     Some (log 10 (base_rows (test_scenarios 100000 0 ! 4) + 1) *
           coefficient (sc_type (test_scenarios 100000 0 ! 4)) ''PostgreSQL_indexed'', fresh_rng)"
proof -
  let ?sc = "test_scenarios 100000 0 ! 4"
  note T = estimator_base_time_formula [of 100000 0 half_sampler "''PostgreSQL_indexed''" fresh_rng ?sc]
  have m: "?sc \<in> set (test_scenarios 100000 0)" by (simp add: test_scenarios_def)
  have f: "sc_name ?sc = ''Q5''" "sc_type ?sc = ''simple''" "base_rows ?sc = 10000"
    by (simp_all add: test_scenarios_def)
  have c: "sc_type ?sc \<noteq> ''crud''" by (simp add: f)
  have 1: "estimator_base_time half_sampler ?sc ''PostgreSQL_indexed'' fresh_rng =
     Some (log 10 (base_rows ?sc + 1) * coefficient (sc_type ?sc) ''PostgreSQL_indexed'', fresh_rng)"
    using T [THEN conjunct1, rule_format, OF m c] .
  have 2: "estimator_base_time half_sampler ?sc ''PostgreSQL_indexed'' fresh_rng =
     Some (log 10 10001 * 40, fresh_rng)"
    using T [THEN conjunct2, THEN conjunct2, THEN conjunct2, THEN conjunct2, THEN conjunct1,
        THEN mp] f by blast
  show ?thesis by (intro conjI) (fact m f c 1 2)+
qed

text \<open>
  With a source table of 10,000 rows (both tables, here) the simple scenarios have the
  \<open>base_rows\<close> 3000, 27, 6000, 3000, 1000, 24, 500 and 4000: none has 10,000, and with
  the PostgreSQL_indexed coefficient their base times are at most \<open>log10(6001) * 40\<close>,
  below \<open>log10(10001) * 40\<close>. The base time of Q1 is \<open>log10(3001) * 40\<close>.
\<close>

theorem estimator_base_time_counterexample:
  "map base_rows (take 8 (test_scenarios 10000 10000)) =
     [3000, 27, 6000, 3000, 1000, 24, 500, 4000] \<and>
   map sc_type (take 8 (test_scenarios 10000 10000)) = replicate 8 ''simple'' \<and>
   map sc_type (drop 8 (test_scenarios 10000 10000)) =
     replicate 5 ''complex'' @ replicate 3 ''crud'' \<and>
   estimator_base_time half_sampler (test_scenarios 10000 10000 ! 0) ''PostgreSQL_indexed'' fresh_rng =
     Some (log 10 3001 * 40, fresh_rng) \<and>
   estimator_base_time half_sampler (test_scenarios 10000 10000 ! 2) ''PostgreSQL_indexed'' fresh_rng =
     Some (log 10 6001 * 40, fresh_rng) \<and>
   log 10 3001 * 40 < log 10 10001 * (40::real) \<and>
   log 10 6001 * 40 < log 10 10001 * (40::real) \<and>
   estimator_base_time half_sampler (test_scenarios 10000 10000 ! 0) ''PostgreSQL_indexed'' fresh_rng \<noteq>
     Some (log 10 10001 * 40, fresh_rng)"
proof -
  have l: "log 10 3001 < log 10 (10001::real)" "log 10 6001 < log 10 (10001::real)"
    by simp_all
  have 1: "estimator_base_time half_sampler (test_scenarios 10000 10000 ! 0) ''PostgreSQL_indexed'' fresh_rng =
     Some (log 10 3001 * 40, fresh_rng)"
    by (simp add: test_scenarios_def estimator_base_time_def)
  have 2: "estimator_base_time half_sampler (test_scenarios 10000 10000 ! 2) ''PostgreSQL_indexed'' fresh_rng =
     Some (log 10 6001 * 40, fresh_rng)"
    by (simp add: test_scenarios_def estimator_base_time_def)
  have 3: "map base_rows (take 8 (test_scenarios 10000 10000)) =
     [3000, 27, 6000, 3000, 1000, 24, 500, 4000]"
    by (simp add: test_scenarios_def)
  have 4: "map sc_type (take 8 (test_scenarios 10000 10000)) = replicate 8 ''simple''"
    by (simp add: test_scenarios_def numeral_eq_Suc)
  have 5: "map sc_type (drop 8 (test_scenarios 10000 10000)) =
     replicate 5 ''complex'' @ replicate 3 ''crud''"
    by (simp add: test_scenarios_def numeral_eq_Suc)
  have 6: "estimator_base_time half_sampler (test_scenarios 10000 10000 ! 0) ''PostgreSQL_indexed'' fresh_rng \<noteq>
     Some (log 10 10001 * 40, fresh_rng)"
  proof -
    have "log 10 3001 \<noteq> log 10 (10001::real)" using l(1) by (rule less_imp_neq)
    then show ?thesis unfolding 1 by simp
  qed
  have l40: "log 10 3001 * 40 < log 10 10001 * (40::real)"
    "log 10 6001 * 40 < log 10 10001 * (40::real)"
    by simp_all
  show ?thesis by (intro conjI) (fact 1 2 3 4 5 6 l40)+
qed

text \<open>
  C7, as amended. After the base time the estimator draws one number from
  \<^verbatim>\<open>np.random.uniform(0.85, 1.15)\<close>, that is, 0.85 plus 0.30 times the next value of the
  random source, and the total is the base time times this number (a jitter of fifteen
  percent either way, not ten). It then splits the total with a fixed query-time
  fraction that is not drawn: 0.9 for crud, 0.55 for InfluxDB otherwise, 0.75 for the
  other databases; the return time is the rest. The generator state advances by one
  draw. The step has the form of the generator's step, not its jitter range nor its
  drawn fractions.
\<close>

theorem estimator_jitter_and_fixed_split:
  "estimator_jitter_split mt ty db b st =
     ((b * fst (np_random_uniform mt (85 / 100) (115 / 100) st),
       b * fst (np_random_uniform mt (85 / 100) (115 / 100) st) *
         (if ty = ''crud'' then 9 / 10 else if db = ''InfluxDB'' then 55 / 100 else 75 / 100),
       b * fst (np_random_uniform mt (85 / 100) (115 / 100) st) -
       b * fst (np_random_uniform mt (85 / 100) (115 / 100) st) *
         (if ty = ''crud'' then 9 / 10 else if db = ''InfluxDB'' then 55 / 100 else 75 / 100)),
      snd (np_random_uniform mt (85 / 100) (115 / 100) st)) \<and>
   np_random_uniform mt (85 / 100) (115 / 100) st =
     (85 / 100 + 30 / 100 * mt (rng_seed st) (rng_pos st), st\<lparr>rng_pos := Suc (rng_pos st)\<rparr>) \<and>
   (unit_samples mt \<longrightarrow>
      85 / 100 \<le> fst (np_random_uniform mt (85 / 100) (115 / 100) st) \<and>
      fst (np_random_uniform mt (85 / 100) (115 / 100) st) < 115 / 100) \<and>
   (unit_samples mt \<and> 0 \<le> b \<longrightarrow>
      b * (85 / 100) \<le> fst (fst (estimator_jitter_split mt ty db b st)) \<and>
      fst (fst (estimator_jitter_split mt ty db b st)) \<le> b * (115 / 100))"
proof (intro conjI impI)
  let ?j = "fst (np_random_uniform mt (85 / 100) (115 / 100) st)"
  show eq: "estimator_jitter_split mt ty db b st =
     ((b * ?j,
       b * ?j * (if ty = ''crud'' then 9 / 10 else if db = ''InfluxDB'' then 55 / 100 else 75 / 100),
       b * ?j -
       b * ?j * (if ty = ''crud'' then 9 / 10 else if db = ''InfluxDB'' then 55 / 100 else 75 / 100)),
      snd (np_random_uniform mt (85 / 100) (115 / 100) st))"
    by (simp add: estimator_jitter_split_def split_def Let_def)
  show "np_random_uniform mt (85 / 100) (115 / 100) st =
     (85 / 100 + 30 / 100 * mt (rng_seed st) (rng_pos st), st\<lparr>rng_pos := Suc (rng_pos st)\<rparr>)"
    by (simp add: np_random_uniform_def)
  have t: "fst (fst (estimator_jitter_split mt ty db b st)) = b * ?j"
    by (simp only: eq fst_conv)
  {
    assume u: "unit_samples mt"
    show "85 / 100 \<le> ?j" by (rule uniform_bounds(1) [OF u]) simp
    have "0 \<le> mt (rng_seed st) (rng_pos st) \<and> mt (rng_seed st) (rng_pos st) < 1"
      using u unfolding unit_samples_def by blast
    then show "?j < 115 / 100" by (simp add: np_random_uniform_def)
  }
  {
    assume a: "unit_samples mt \<and> 0 \<le> b"
    have "85 / 100 \<le> ?j" by (rule uniform_bounds(1) [OF conjunct1 [OF a]]) simp
    then have "b * (85 / 100) \<le> b * ?j" using a by (intro mult_left_mono) simp_all
    then show "b * (85 / 100) \<le> fst (fst (estimator_jitter_split mt ty db b st))"
      by (simp only: t)
    have "?j \<le> 115 / 100" by (rule uniform_bounds(2) [OF conjunct1 [OF a]]) simp
    then have "b * ?j \<le> b * (115 / 100)" using a by (intro mult_left_mono) simp_all
    then show "fst (fst (estimator_jitter_split mt ty db b st)) \<le> b * (115 / 100)"
      by (simp only: t)
  }
qed

text \<open>
  The theorem at a base time of 100 ms: a simple scenario on InfluxDB with a draw of 0
  (total 85, query time 46.75), and a crud scenario on DuckDB with a draw of one half
  (total 100, query time 90).
\<close>

theorem estimator_jitter_and_fixed_split_witness:
  "unit_samples zero_sampler \<and> unit_samples half_sampler \<and> (0::real) \<le> 100 \<and>
   estimator_jitter_split zero_sampler ''simple'' ''InfluxDB'' 100 fresh_rng =
     ((85, 4675 / 100, 3825 / 100), \<lparr>rng_seed = 0, rng_pos = 1\<rparr>) \<and>
   estimator_jitter_split half_sampler ''crud'' ''DuckDB'' 100 fresh_rng =
     ((100, 90, 10), \<lparr>rng_seed = 0, rng_pos = 1\<rparr>) \<and>
   np_random_uniform zero_sampler (85 / 100) (115 / 100) fresh_rng =
     (85 / 100, \<lparr>rng_seed = 0, rng_pos = 1\<rparr>) \<and>
   np_random_uniform half_sampler (85 / 100) (115 / 100) fresh_rng =
     (1, \<lparr>rng_seed = 0, rng_pos = 1\<rparr>) \<and>
   85 / 100 \<le> fst (np_random_uniform zero_sampler (85 / 100) (115 / 100) fresh_rng) \<and>
   fst (np_random_uniform zero_sampler (85 / 100) (115 / 100) fresh_rng) < 115 / 100 \<and>
   100 * (85 / 100) \<le> fst (fst (estimator_jitter_split zero_sampler ''simple'' ''InfluxDB'' 100 fresh_rng)) \<and>
   fst (fst (estimator_jitter_split zero_sampler ''simple'' ''InfluxDB'' 100 fresh_rng)) \<le> 100 * (115 / 100)"
proof -
  note Z = estimator_jitter_and_fixed_split [of zero_sampler "''simple''" "''InfluxDB''" 100 fresh_rng]
  note H = estimator_jitter_and_fixed_split [of half_sampler "''crud''" "''DuckDB''" 100 fresh_rng]
  have uz: "np_random_uniform zero_sampler (85 / 100) (115 / 100) fresh_rng =
     (85 / 100, \<lparr>rng_seed = 0, rng_pos = 1\<rparr>)"
    using Z [THEN conjunct2, THEN conjunct1] by (simp add: zero_sampler_def fresh_rng_def)
  have uh: "np_random_uniform half_sampler (85 / 100) (115 / 100) fresh_rng =
     (1, \<lparr>rng_seed = 0, rng_pos = 1\<rparr>)"
    using H [THEN conjunct2, THEN conjunct1] by (simp add: half_sampler_def fresh_rng_def)
  have z: "estimator_jitter_split zero_sampler ''simple'' ''InfluxDB'' 100 fresh_rng =
     ((85, 4675 / 100, 3825 / 100), \<lparr>rng_seed = 0, rng_pos = 1\<rparr>)"
    using Z [THEN conjunct1] unfolding uz by simp
  have h: "estimator_jitter_split half_sampler ''crud'' ''DuckDB'' 100 fresh_rng =
     ((100, 90, 10), \<lparr>rng_seed = 0, rng_pos = 1\<rparr>)"
    using H [THEN conjunct1] unfolding uh by simp
  note b1 = Z [THEN conjunct2, THEN conjunct2, THEN conjunct1, THEN mp, OF unit_zero_sampler]
  have o: "unit_samples zero_sampler \<and> (0::real) \<le> 100" using unit_zero_sampler by simp
  note b2 = Z [THEN conjunct2, THEN conjunct2, THEN conjunct2, THEN mp, OF o]
  show ?thesis
    by (intro conjI) (fact unit_zero_sampler unit_half_sampler uz uh z h
        b1 [THEN conjunct1] b1 [THEN conjunct2] b2 [THEN conjunct1] b2 [THEN conjunct2] | simp)+
qed

text \<open>
  At a base time of 100 ms and draws of 0 the estimator's total is 85 ms, below the
  90 ms that a jitter of ten percent allows, and on InfluxDB the query time is 0.55 of
  the total, below the 0.6 of the generator's range; the generator's step on the same
  draws gives 90 ms, split into 54 and 36, and consumes two draws. At draws of one half
  the two steps agree on the total of 100 ms, and the estimator splits it into 55 and
  45 after one draw, the generator's step into 70 and 30 after two.
\<close>

theorem estimator_split_differs_counterexample:
  "unit_samples zero_sampler \<and> unit_samples half_sampler \<and>
   estimator_jitter_split zero_sampler ''simple'' ''InfluxDB'' 100 fresh_rng =
     ((85, 4675 / 100, 3825 / 100), \<lparr>rng_seed = 0, rng_pos = 1\<rparr>) \<and>
   spec_estimator_jitter_split zero_sampler ''simple'' ''InfluxDB'' 100 fresh_rng =
     ((90, 54, 36), \<lparr>rng_seed = 0, rng_pos = 2\<rparr>) \<and>
   estimator_jitter_split zero_sampler ''simple'' ''InfluxDB'' 100 fresh_rng \<noteq>
     spec_estimator_jitter_split zero_sampler ''simple'' ''InfluxDB'' 100 fresh_rng \<and>
   (85::real) < 100 * (9 / 10) \<and>
   (4675 / 100) / 85 < (6 / 10 :: real) \<and>
   estimator_jitter_split half_sampler ''simple'' ''InfluxDB'' 100 fresh_rng =
     ((100, 55, 45), \<lparr>rng_seed = 0, rng_pos = 1\<rparr>) \<and>
   spec_estimator_jitter_split half_sampler ''simple'' ''InfluxDB'' 100 fresh_rng =
     ((100, 70, 30), \<lparr>rng_seed = 0, rng_pos = 2\<rparr>) \<and>
   estimator_jitter_split half_sampler ''simple'' ''InfluxDB'' 100 fresh_rng \<noteq>
     spec_estimator_jitter_split half_sampler ''simple'' ''InfluxDB'' 100 fresh_rng"
  using unit_zero_sampler unit_half_sampler
  by (simp add: estimator_jitter_split_def spec_estimator_jitter_split_def generator_ratio_range_def
      jitter_split_def np_random_uniform_def zero_sampler_def half_sampler_def fresh_rng_def
      split_def Let_def)

end
